theory Spec2Isabelle
  imports Main "HOL-Library.Word"
begin

section \<open>Library functions called by the encoder\<close>

text \<open>
  The package \<^verbatim>\<open>edn\<close> (encode.go) turns Go values into EDN text by reflection.
  It calls a handful of functions of the Go standard library and of go-uuid; this section
  gives each of them as a HOL function that computes the same result.  A Go \<^verbatim>\<open>string\<close>
  and a \<^verbatim>\<open>[]byte\<close> are sequences of bytes: a \<^typ>\<open>string\<close> (a list of 8-bit characters)
  where the bytes are text, a list of numbers below 256 where they are data.
\<close>

subsection \<open>strings.HasPrefix\<close>

definition HasPrefix :: "string \<Rightarrow> string \<Rightarrow> bool" where
  "HasPrefix s prefix = (length prefix \<le> length s \<and> take (length prefix) s = prefix)"

subsection \<open>strconv.AppendInt, strconv.AppendUint (base 10)\<close>

definition lowerhex :: string where
  "lowerhex = ''0123456789abcdef''"

fun formatBits :: "nat \<Rightarrow> string" where
  "formatBits u = (if u < 10 then [lowerhex ! u] else formatBits (u div 10) @ [lowerhex ! (u mod 10)])"

declare formatBits.simps [simp del]

definition AppendUint :: "string \<Rightarrow> 64 word \<Rightarrow> string" where
  "AppendUint dst u = dst @ formatBits (unat u)"

text \<open>\<^verbatim>\<open>AppendInt\<close> prints a minus sign and the digits of \<^verbatim>\<open>uint64(-i)\<close> when \<^verbatim>\<open>i < 0\<close>.\<close>

definition AppendInt :: "string \<Rightarrow> 64 word \<Rightarrow> string" where
  "AppendInt dst i =
     dst @ (if sint i < 0 then CHR ''-'' # formatBits (unat (- i)) else formatBits (unat i))"

subsection \<open>Floating-point values: math.IsInf, math.IsNaN, conversions\<close>

text \<open>
  A \<^verbatim>\<open>float64\<close> is its IEEE-754 bit pattern (\<^verbatim>\<open>math.Float64bits\<close>): one sign bit, 11
  exponent bits, 52 fraction bits; a \<^verbatim>\<open>float32\<close> has 1, 8 and 23.
\<close>

type_synonym float64 = "64 word"
type_synonym float32 = "32 word"

definition IsNaN :: "float64 \<Rightarrow> bool" where
  "IsNaN f = (unat f div 2 ^ 52 mod 2 ^ 11 = 2047 \<and> unat f mod 2 ^ 52 \<noteq> 0)"

definition IsInf :: "float64 \<Rightarrow> int \<Rightarrow> bool" where
  "IsInf f sign = (0 \<le> sign \<and> unat f = 0x7FF0000000000000 \<or> sign \<le> 0 \<and> unat f = 0xFFF0000000000000)"

fun bitlen :: "nat \<Rightarrow> nat" where
  "bitlen n = (if n = 0 then 0 else Suc (bitlen (n div 2)))"

declare bitlen.simps [simp del]

text \<open>
  The conversion \<^verbatim>\<open>float64(x)\<close> of a \<^verbatim>\<open>float32\<close> is exact: infinities and NaNs stay what
  they are (a NaN becomes quiet), a denormal is normalised.
\<close>

definition float64_of_float32 :: "float32 \<Rightarrow> float64" where
  "float64_of_float32 x =
     (let s = unat x div 2 ^ 31; e = unat x div 2 ^ 23 mod 2 ^ 8; m = unat x mod 2 ^ 23
      in word_of_nat (s * 2 ^ 63 +
           (if e = 255 then 2047 * 2 ^ 52 + (if m = 0 then 0 else 2 ^ 51 + (m mod 2 ^ 22) * 2 ^ 29)
            else if e = 0 then
              (if m = 0 then 0 else (bitlen m + 873) * 2 ^ 52 + (m * 2 ^ (53 - bitlen m) - 2 ^ 52))
            else (e + 896) * 2 ^ 52 + m * 2 ^ 29)))"

text \<open>
  The conversion \<^verbatim>\<open>float32(f)\<close> rounds to the nearest \<^verbatim>\<open>float32\<close>, ties to even:
  \<open>mant * 2 ^ (ex - 1075)\<close> is the value of \<open>f\<close>, \<open>q\<close> the exponent of the last place of
  the result.
\<close>

definition float32_of_float64 :: "float64 \<Rightarrow> float32" where
  "float32_of_float64 f =
     (let s = unat f div 2 ^ 63; e = unat f div 2 ^ 52 mod 2 ^ 11; m = unat f mod 2 ^ 52
      in word_of_nat (s * 2 ^ 31 +
           (if e = 2047 then 255 * 2 ^ 23 + (if m = 0 then 0 else 2 ^ 22 + m div 2 ^ 29 mod 2 ^ 22)
            else
              let mant = (if e = 0 then m else m + 2 ^ 52);
                  ex = (if e = 0 then 1 else int e);
                  q = max (ex - 1075 + int (bitlen mant) - 24) (- 149);
                  shift = nat (q - (ex - 1075));
                  m0 = mant div 2 ^ shift;
                  rem = mant mod 2 ^ shift;
                  m1 = (if 2 ^ (shift - 1) < rem \<or> rem = 2 ^ (shift - 1) \<and> odd m0 then m0 + 1 else m0);
                  m2 = (if m1 = 2 ^ 24 then 2 ^ 23 else m1);
                  q2 = (if m1 = 2 ^ 24 then q + 1 else q)
              in if mant = 0 then 0
                 else if m2 < 2 ^ 23 then m2
                 else if 255 \<le> q2 + 150 then 255 * 2 ^ 23
                 else nat (q2 + 150) * 2 ^ 23 + (m2 - 2 ^ 23))))"

subsection \<open>strconv.FormatFloat with format 'g' and precision -1\<close>

text \<open>
  \<^verbatim>\<open>FormatFloat(f, 'g', -1, bitSize)\<close> prints the shortest decimal that reads back as the
  same float.  The definitions follow strconv's reference path (ftoa.go, decimal.go):
  the exact decimal expansion of \<open>mant * 2 ^ (exp - mantbits)\<close>, \<^verbatim>\<open>roundShortest\<close>, then
  \<^verbatim>\<open>%e\<close> or \<^verbatim>\<open>%f\<close> layout.  (The library's fast paths return the same digits.)
\<close>

record floatInfo =
  mantbits :: nat
  expbits :: nat
  bias :: int

definition float32info :: floatInfo where
  "float32info = \<lparr>mantbits = 23, expbits = 8, bias = - 127\<rparr>"

definition float64info :: floatInfo where
  "float64info = \<lparr>mantbits = 52, expbits = 11, bias = - 1023\<rparr>"

text \<open>
  A \<^verbatim>\<open>decimal\<close> is a list of digits with a decimal point: the digits \<open>d\<^sub>0 d\<^sub>1 \<dots>\<close> and
  \<open>dp\<close> stand for \<open>0.d\<^sub>0 d\<^sub>1 \<dots> * 10 ^ dp\<close>; \<^verbatim>\<open>nd\<close> is the number of digits.
\<close>

record decimal =
  dec_d :: "nat list"
  dec_dp :: int

definition dec_nd :: "decimal \<Rightarrow> nat" where
  "dec_nd a = length (dec_d a)"

fun digitsOf :: "nat \<Rightarrow> nat list" where
  "digitsOf n = (if n < 10 then [n] else digitsOf (n div 10) @ [n mod 10])"

declare digitsOf.simps [simp del]

definition numberOf :: "nat list \<Rightarrow> nat" where
  "numberOf ds = foldl (\<lambda>acc x. 10 * acc + x) 0 ds"

definition trim :: "decimal \<Rightarrow> decimal" where
  "trim a = (let ds = rev (dropWhile (\<lambda>x. x = 0) (rev (dec_d a)))
             in \<lparr>dec_d = ds, dec_dp = (if ds = [] then 0 else dec_dp a)\<rparr>)"

definition Assign :: "nat \<Rightarrow> decimal" where
  "Assign v = trim \<lparr>dec_d = (if v = 0 then [] else digitsOf v),
                     dec_dp = (if v = 0 then 0 else int (length (digitsOf v)))\<rparr>"

text \<open>
  \<^verbatim>\<open>Shift(k)\<close> multiplies by \<open>2 ^ k\<close>.  The product is exact (the 800 digits of the
  library's buffer hold every \<^verbatim>\<open>float64\<close>): for \<open>k < 0\<close> it is the number times \<open>5 ^ - k\<close>
  with the point moved \<open>- k\<close> places.
\<close>

definition Shift :: "decimal \<Rightarrow> int \<Rightarrow> decimal" where
  "Shift a k =
     (if dec_d a = [] then a
      else if 0 \<le> k then
        (let ds = digitsOf (numberOf (dec_d a) * 2 ^ nat k)
         in trim \<lparr>dec_d = ds, dec_dp = dec_dp a + (int (length ds) - int (dec_nd a))\<rparr>)
      else
        (let ds = digitsOf (numberOf (dec_d a) * 5 ^ nat (- k))
         in trim \<lparr>dec_d = ds, dec_dp = dec_dp a + (int (length ds) - int (dec_nd a)) + k\<rparr>))"

definition RoundDown :: "decimal \<Rightarrow> int \<Rightarrow> decimal" where
  "RoundDown a nd = (if nd < 0 \<or> int (dec_nd a) \<le> nd then a
                     else trim (a\<lparr>dec_d := take (nat nd) (dec_d a)\<rparr>))"

text \<open>
  \<^verbatim>\<open>RoundUp(nd)\<close> looks from digit \<open>nd - 1\<close> down for a digit below 9, adds one to it and
  cuts the number there; digits that are all 9 give a single 1 with the point moved.
\<close>

fun roundUpFrom :: "nat list \<Rightarrow> nat list option" where
  "roundUpFrom [] = None"
| "roundUpFrom (c # cs) = (if c < 9 then Some (rev cs @ [c + 1]) else roundUpFrom cs)"

definition RoundUp :: "decimal \<Rightarrow> int \<Rightarrow> decimal" where
  "RoundUp a nd =
     (if nd < 0 \<or> int (dec_nd a) \<le> nd then a
      else (case roundUpFrom (rev (take (nat nd) (dec_d a))) of
              Some ds \<Rightarrow> a\<lparr>dec_d := ds\<rparr>
            | None \<Rightarrow> \<lparr>dec_d = [1], dec_dp = dec_dp a + 1\<rparr>))"

definition shouldRoundUp :: "decimal \<Rightarrow> int \<Rightarrow> bool" where
  "shouldRoundUp a nd =
     (if nd < 0 \<or> int (dec_nd a) \<le> nd then False
      else if dec_d a ! nat nd = 5 \<and> nd + 1 = int (dec_nd a)
        then 0 < nd \<and> (dec_d a ! (nat nd - 1)) mod 2 \<noteq> 0
      else 5 \<le> dec_d a ! nat nd)"

definition Round :: "decimal \<Rightarrow> int \<Rightarrow> decimal" where
  "Round a nd = (if nd < 0 \<or> int (dec_nd a) \<le> nd then a
                 else if shouldRoundUp a nd then RoundUp a nd else RoundDown a nd)"

text \<open>The digit loop of \<^verbatim>\<open>roundShortest\<close>, from index \<open>ui\<close> of \<open>upper\<close>.\<close>

function roundShortest_loop ::
  "decimal \<Rightarrow> decimal \<Rightarrow> decimal \<Rightarrow> bool \<Rightarrow> nat \<Rightarrow> nat \<Rightarrow> decimal" where
  "roundShortest_loop a lower upper inclusive upperdelta ui =
     (let mi = int ui - dec_dp upper + dec_dp a in
      if int (dec_nd a) \<le> mi then a
      else
        let li = int ui - dec_dp upper + dec_dp lower;
            l = (if 0 \<le> li \<and> li < int (dec_nd lower) then dec_d lower ! nat li else 0);
            m = (if 0 \<le> mi then dec_d a ! nat mi else 0);
            u = (if ui < dec_nd upper then dec_d upper ! ui else 0);
            okdown = (l \<noteq> m \<or> inclusive \<and> li + 1 = int (dec_nd lower));
            upperdelta' = (if upperdelta = 0 \<and> m + 1 < u then 2
                           else if upperdelta = 0 \<and> m \<noteq> u then 1
                           else if upperdelta = 1 \<and> (m \<noteq> 9 \<or> u \<noteq> 0) then 2
                           else upperdelta);
            okup = (0 < upperdelta' \<and> (inclusive \<or> 1 < upperdelta' \<or> ui + 1 < dec_nd upper))
        in if okdown \<and> okup then Round a (mi + 1)
           else if okdown then RoundDown a (mi + 1)
           else if okup then RoundUp a (mi + 1)
           else roundShortest_loop a lower upper inclusive upperdelta' (ui + 1))"
  by pat_completeness auto
termination
  by (relation "measure (\<lambda>(a, lower, upper, inclusive, upperdelta, ui).
        nat (int (dec_nd a) - (int ui - dec_dp upper + dec_dp a)))") auto

declare roundShortest_loop.simps [simp del]

definition roundShortest :: "decimal \<Rightarrow> nat \<Rightarrow> int \<Rightarrow> floatInfo \<Rightarrow> decimal" where
  "roundShortest a mant exp flt =
     (if mant = 0 then a\<lparr>dec_d := []\<rparr>
      else
        let minexp = bias flt + 1 in
        if minexp < exp \<and> 100 * (exp - int (mantbits flt)) \<le> 332 * (dec_dp a - int (dec_nd a))
        then a
        else
          let upper = Shift (Assign (mant * 2 + 1)) (exp - int (mantbits flt) - 1);
              mantlo = (if 2 ^ mantbits flt < mant \<or> exp = minexp then mant - 1 else mant * 2 - 1);
              explo = (if 2 ^ mantbits flt < mant \<or> exp = minexp then exp else exp - 1);
              lower = Shift (Assign (mantlo * 2 + 1)) (explo - int (mantbits flt) - 1);
              inclusive = (mant mod 2 = 0)
          in roundShortest_loop a lower upper inclusive 0 0)"

definition digitChars :: "nat list \<Rightarrow> string" where
  "digitChars ds = map (\<lambda>c. lowerhex ! c) ds"

text \<open>\<^verbatim>\<open>%e\<close>: \<^verbatim>\<open>-d.ddddde\<plusminus>dd\<close>\<close>

definition fmtE :: "string \<Rightarrow> bool \<Rightarrow> decimal \<Rightarrow> int \<Rightarrow> char \<Rightarrow> string" where
  "fmtE dst neg a prec fmt =
     (let nd = dec_nd a;
          sign = (if neg then ''-'' else '''');
          first = (if nd \<noteq> 0 then [lowerhex ! (dec_d a ! 0)] else ''0'');
          m = min nd (nat (prec + 1));
          more = (if 0 < prec
                  then ''.'' @ digitChars (drop 1 (take m (dec_d a)))
                       @ replicate (nat (prec + 1) - max 1 m) (CHR ''0'')
                  else '''');
          exp = (if nd = 0 then 0 else dec_dp a - 1);
          esign = (if exp < 0 then ''-'' else ''+'');
          e = nat \<bar>exp\<bar>;
          edigits = (if e < 10 then [CHR ''0'', lowerhex ! e]
                     else if e < 100 then [lowerhex ! (e div 10), lowerhex ! (e mod 10)]
                     else [lowerhex ! (e div 100), lowerhex ! (e div 10 mod 10), lowerhex ! (e mod 10)])
      in dst @ sign @ first @ more @ [fmt] @ esign @ edigits)"

text \<open>\<^verbatim>\<open>%f\<close>: \<^verbatim>\<open>-ddddddd.ddddd\<close>\<close>

definition fmtF :: "string \<Rightarrow> bool \<Rightarrow> decimal \<Rightarrow> int \<Rightarrow> string" where
  "fmtF dst neg a prec =
     (let nd = dec_nd a;
          sign = (if neg then ''-'' else '''');
          intpart = (if 0 < dec_dp a
                     then digitChars (take (nat (dec_dp a)) (dec_d a))
                          @ replicate (nat (dec_dp a) - min nd (nat (dec_dp a))) (CHR ''0'')
                     else ''0'');
          frac = (if 0 < prec
                  then ''.'' @ map (\<lambda>i. let j = dec_dp a + int i
                                         in if 0 \<le> j \<and> j < int nd then lowerhex ! (dec_d a ! nat j)
                                            else CHR ''0'') [0 ..< nat prec]
                  else '''')
      in dst @ sign @ intpart @ frac)"

text \<open>The case \<^verbatim>\<open>'g'\<close> of \<^verbatim>\<open>formatDigits\<close>.\<close>

definition formatDigits :: "string \<Rightarrow> bool \<Rightarrow> bool \<Rightarrow> decimal \<Rightarrow> int \<Rightarrow> string" where
  "formatDigits dst shortest neg digs prec =
     (let eprec0 = (if int (dec_nd digs) < prec \<and> dec_dp digs \<le> int (dec_nd digs)
                    then int (dec_nd digs) else prec);
          eprec = (if shortest then 6 else eprec0);
          exp = dec_dp digs - 1
      in if exp < - 4 \<or> eprec \<le> exp
         then fmtE dst neg digs ((if int (dec_nd digs) < prec then int (dec_nd digs) else prec) - 1) (CHR ''e'')
         else fmtF dst neg digs (max ((if dec_dp digs < prec then int (dec_nd digs) else prec) - dec_dp digs) 0))"

text \<open>
  \<^verbatim>\<open>genericFtoa\<close> on the bits of the value and the layout \<open>flt\<close> of its width, for format
  \<^verbatim>\<open>'g'\<close> and the shortest precision.
\<close>

definition genericFtoa :: "string \<Rightarrow> nat \<Rightarrow> floatInfo \<Rightarrow> string" where
  "genericFtoa dst bits flt =
     (let neg = (bits div 2 ^ (expbits flt + mantbits flt) \<noteq> 0);
          exp0 = bits div 2 ^ mantbits flt mod 2 ^ expbits flt;
          mant0 = bits mod 2 ^ mantbits flt
      in if exp0 = 2 ^ expbits flt - 1
         then dst @ (if mant0 \<noteq> 0 then ''NaN'' else if neg then ''-Inf'' else ''+Inf'')
         else
           let exp = (if exp0 = 0 then 1 else int exp0) + bias flt;
               mant = (if exp0 = 0 then mant0 else mant0 + 2 ^ mantbits flt);
               digs = roundShortest (Shift (Assign mant) (exp - int (mantbits flt))) mant exp flt
           in formatDigits dst True neg digs (int (dec_nd digs)))"

text \<open>
  \<^verbatim>\<open>AppendFloat(dst, f, 'g', -1, bitSize)\<close>; a bit size other than 32 and 64 panics
  (\<open>None\<close>).  \<^verbatim>\<open>FormatFloat\<close> is \<^verbatim>\<open>AppendFloat\<close> on an empty buffer.
\<close>

definition AppendFloat :: "string \<Rightarrow> float64 \<Rightarrow> nat \<Rightarrow> string option" where
  "AppendFloat dst f bitSize =
     (if bitSize = 32 then Some (genericFtoa dst (unat (float32_of_float64 f)) float32info)
      else if bitSize = 64 then Some (genericFtoa dst (unat f) float64info)
      else None)"

definition FormatFloat :: "float64 \<Rightarrow> nat \<Rightarrow> string option" where
  "FormatFloat f bitSize = AppendFloat [] f bitSize"

subsection \<open>strconv.Quote, the result of fmt.Sprintf("%#v", s) on a string\<close>

text \<open>
  \<^verbatim>\<open>utf8.DecodeRuneInString\<close>: the first code point of \<open>s\<close> and its width in bytes;
  \<^verbatim>\<open>(RuneError, 1)\<close> where the bytes are not UTF-8.
\<close>

definition RuneError :: nat where
  "RuneError = 0xFFFD"

definition DecodeRuneInString :: "string \<Rightarrow> nat \<times> nat" where
  "DecodeRuneInString s =
     (case map of_char (take 4 s) of
        [] \<Rightarrow> (RuneError, 0)
      | s0 # rest \<Rightarrow>
          if s0 < 0x80 then (s0, 1)
          else if s0 < 0xC2 \<or> 0xF4 < s0 then (RuneError, 1)
          else
            let sz = (if s0 < 0xE0 then 2 else if s0 < 0xF0 then 3 else 4 :: nat);
                lo = (if s0 = 0xE0 then 0xA0 else if s0 = 0xF0 then 0x90 else 0x80);
                hi = (if s0 = 0xED then 0x9F else if s0 = 0xF4 then 0x8F else 0xBF)
            in if length s < sz then (RuneError, 1)
               else if rest ! 0 < lo \<or> hi < rest ! 0 then (RuneError, 1)
               else if sz \<le> 2 then (s0 mod 32 * 64 + rest ! 0 mod 64, 2)
               else if rest ! 1 < 0x80 \<or> 0xBF < rest ! 1 then (RuneError, 1)
               else if sz \<le> 3 then (s0 mod 16 * 4096 + rest ! 0 mod 64 * 64 + rest ! 1 mod 64, 3)
               else if rest ! 2 < 0x80 \<or> 0xBF < rest ! 2 then (RuneError, 1)
               else (s0 mod 8 * 262144 + rest ! 0 mod 64 * 4096 + rest ! 1 mod 64 * 64
                       + rest ! 2 mod 64, 4))"

text \<open>
  \<^verbatim>\<open>strconv.IsPrint\<close> decides Latin-1 by comparison and every other code point by the
  library's Unicode tables; the tables are the parameter \<open>tab\<close>.
\<close>

definition IsPrint :: "(nat \<Rightarrow> bool) \<Rightarrow> nat \<Rightarrow> bool" where
  "IsPrint tab r =
     (if r \<le> 0xFF then 0x20 \<le> r \<and> r \<le> 0x7E \<or> 0xA1 \<le> r \<and> r \<noteq> 0xAD else tab r)"

definition ValidRune :: "nat \<Rightarrow> bool" where
  "ValidRune r = (r < 0xD800 \<or> 0xDFFF < r \<and> r \<le> 0x10FFFF)"

definition hexDigits :: "nat \<Rightarrow> nat \<Rightarrow> string" where
  "hexDigits n r = map (\<lambda>i. lowerhex ! (r div 16 ^ i mod 16)) (rev [0 ..< n])"

text \<open>
  \<^verbatim>\<open>appendEscapedRune\<close> for \<^verbatim>\<open>Quote\<close> (neither ASCII-only nor graphic-only).  \<open>enc\<close> is
  the UTF-8 form of \<open>r\<close>, which \<^verbatim>\<open>utf8.AppendRune\<close> writes: the bytes \<open>r\<close> was decoded from.
\<close>

definition appendEscapedRune :: "(nat \<Rightarrow> bool) \<Rightarrow> string \<Rightarrow> nat \<Rightarrow> string \<Rightarrow> char \<Rightarrow> string" where
  "appendEscapedRune tab buf r enc quote =
     (if r = of_char quote \<or> r = 0x5C then buf @ CHR 0x5C # enc
      else if IsPrint tab r then buf @ enc
      else if r = 7 then buf @ [CHR 0x5C, CHR ''a'']
      else if r = 8 then buf @ [CHR 0x5C, CHR ''b'']
      else if r = 12 then buf @ [CHR 0x5C, CHR ''f'']
      else if r = 10 then buf @ [CHR 0x5C, CHR ''n'']
      else if r = 13 then buf @ [CHR 0x5C, CHR ''r'']
      else if r = 9 then buf @ [CHR 0x5C, CHR ''t'']
      else if r = 11 then buf @ [CHR 0x5C, CHR ''v'']
      else if r < 0x20 \<or> r = 0x7F then buf @ [CHR 0x5C, CHR ''x''] @ hexDigits 2 r
      else if \<not> ValidRune r then buf @ [CHR 0x5C, CHR ''u''] @ hexDigits 4 RuneError
      else if r < 0x10000 then buf @ [CHR 0x5C, CHR ''u''] @ hexDigits 4 r
      else buf @ [CHR 0x5C, CHR ''U''] @ hexDigits 8 r)"

text \<open>The loop of \<^verbatim>\<open>appendQuotedWith\<close> over the code points of \<open>s\<close>.\<close>

function appendQuotedWith_loop :: "(nat \<Rightarrow> bool) \<Rightarrow> string \<Rightarrow> string \<Rightarrow> char \<Rightarrow> string" where
  "appendQuotedWith_loop tab buf [] quote = buf"
| "appendQuotedWith_loop tab buf (c # cs) quote =
     (let r = (if of_char c < (0x80 :: nat) then of_char c else fst (DecodeRuneInString (c # cs)));
          width = (if of_char c < (0x80 :: nat) then 1 else snd (DecodeRuneInString (c # cs)))
      in if width = 1 \<and> r = RuneError
         then appendQuotedWith_loop tab (buf @ [CHR 0x5C, CHR ''x''] @ hexDigits 2 (of_char c)) cs quote
         else appendQuotedWith_loop tab (appendEscapedRune tab buf r (take width (c # cs)) quote)
                (drop (width - 1) cs) quote)"
  by pat_completeness auto
termination
  by (relation "measure (\<lambda>(tab, buf, s, quote). length s)") simp_all

definition appendQuotedWith :: "(nat \<Rightarrow> bool) \<Rightarrow> string \<Rightarrow> string \<Rightarrow> char \<Rightarrow> string" where
  "appendQuotedWith tab buf s quote = appendQuotedWith_loop tab (buf @ [quote]) s quote @ [quote]"

definition Quote :: "(nat \<Rightarrow> bool) \<Rightarrow> string \<Rightarrow> string" where
  "Quote tab s = appendQuotedWith tab [] s (CHR 0x22)"

subsection \<open>encoding/base64: StdEncoding\<close>

definition encodeStd :: string where
  "encodeStd = ''ABCDEFGHIJKLMNOPQRSTUVWXYZabcdefghijklmnopqrstuvwxyz0123456789+/''"

definition EncodedLen :: "nat \<Rightarrow> nat" where
  "EncodedLen n = (n + 2) div 3 * 4"

text \<open>
  \<^verbatim>\<open>StdEncoding.Encode(dst, src)\<close>: three bytes become four characters; a last block of
  one or two bytes is padded with \<^verbatim>\<open>=\<close>.
\<close>

fun StdEncoding_Encode :: "nat list \<Rightarrow> string" where
  "StdEncoding_Encode (s0 # s1 # s2 # src) =
     (let val = s0 * 65536 + s1 * 256 + s2
      in encodeStd ! (val div 262144 mod 64) # encodeStd ! (val div 4096 mod 64)
           # encodeStd ! (val div 64 mod 64) # encodeStd ! (val mod 64) # StdEncoding_Encode src)"
| "StdEncoding_Encode [s0, s1] =
     (let val = s0 * 65536 + s1 * 256
      in [encodeStd ! (val div 262144 mod 64), encodeStd ! (val div 4096 mod 64),
          encodeStd ! (val div 64 mod 64), CHR ''=''])"
| "StdEncoding_Encode [s0] =
     (let val = s0 * 65536
      in [encodeStd ! (val div 262144 mod 64), encodeStd ! (val div 4096 mod 64), CHR ''='', CHR ''=''])"
| "StdEncoding_Encode [] = []"

text \<open>
  The streaming encoder of \<^verbatim>\<open>base64.NewEncoder\<close>, for one \<^verbatim>\<open>Write\<close> of \<open>p\<close> on a new
  encoder and then \<^verbatim>\<open>Close\<close>.  \<^verbatim>\<open>Write\<close> encodes chunks of at most 768 bytes (a multiple
  of three) into its 1024-byte buffer and hands each to the underlying writer; what is left,
  fewer than three bytes, waits for \<^verbatim>\<open>Close\<close>.  The result is the list of the blocks written.
\<close>

function encoder_Write :: "nat list \<Rightarrow> string list \<times> nat list" where
  "encoder_Write p =
     (if 3 \<le> length p then
        let nn = (if length p < 768 then length p - length p mod 3 else 768);
            r = encoder_Write (drop nn p)
        in (StdEncoding_Encode (take nn p) # fst r, snd r)
      else ([], p))"
  by pat_completeness auto
termination
  by (relation "measure length") (auto split: if_splits)

declare encoder_Write.simps [simp del]

definition encoder_Close :: "nat list \<Rightarrow> string list" where
  "encoder_Close buf =
     (if 0 < length buf then [take (EncodedLen (length buf)) (StdEncoding_Encode buf)] else [])"

subsection \<open>time.Time and its RFC 3339 layout\<close>

text \<open>
  A \<^verbatim>\<open>time.Time\<close> is held as the calendar date and clock of \<^verbatim>\<open>t.UTC()\<close>.
\<close>

record Time =
  t_year :: int
  t_month :: nat
  t_day :: nat
  t_hour :: nat
  t_min :: nat
  t_sec :: nat
  t_nsec :: nat

text \<open>\<^verbatim>\<open>appendInt\<close> of package time: the decimal form, padded with zeros to \<open>width\<close>.\<close>

definition appendInt :: "string \<Rightarrow> int \<Rightarrow> nat \<Rightarrow> string" where
  "appendInt b x width =
     b @ (if x < 0 then ''-'' else [])
       @ replicate (width - length (formatBits (nat \<bar>x\<bar>))) (CHR ''0'') @ formatBits (nat \<bar>x\<bar>)"

text \<open>
  \<^verbatim>\<open>t.UTC().Format(time.RFC3339Nano)\<close>, the layout \<^verbatim>\<open>2006-01-02T15:04:05.999999999Z07:00\<close>:
  the fraction loses its trailing zeros and is left out when it is zero; the zone of UTC is
  \<^verbatim>\<open>Z\<close>.
\<close>

definition Format_RFC3339Nano :: "Time \<Rightarrow> string" where
  "Format_RFC3339Nano t =
     appendInt [] (t_year t) 4 @ ''-'' @ appendInt [] (int (t_month t)) 2 @ ''-''
       @ appendInt [] (int (t_day t)) 2 @ ''T'' @ appendInt [] (int (t_hour t)) 2 @ '':''
       @ appendInt [] (int (t_min t)) 2 @ '':'' @ appendInt [] (int (t_sec t)) 2
       @ (if t_nsec t = 0 then []
          else ''.'' @ rev (dropWhile (\<lambda>c. c = CHR ''0'') (rev (appendInt [] (int (t_nsec t)) 9))))
       @ ''Z''"

subsection \<open>uuid.UUID.String\<close>

text \<open>
  \<^verbatim>\<open>fmt.Sprintf("%08x-%04x-%04x-%04x-%012x", b[:4], b[4:6], b[6:8], b[8:10], b[10:])\<close> for
  16 bytes, the empty string for any other length.
\<close>

definition UUID_String :: "nat list \<Rightarrow> string" where
  "UUID_String uuid =
     (if length uuid \<noteq> 16 then []
      else concat (map (hexDigits 2) (take 4 uuid)) @ ''-''
         @ concat (map (hexDigits 2) (take 2 (drop 4 uuid))) @ ''-''
         @ concat (map (hexDigits 2) (take 2 (drop 6 uuid))) @ ''-''
         @ concat (map (hexDigits 2) (take 2 (drop 8 uuid))) @ ''-''
         @ concat (map (hexDigits 2) (drop 10 uuid)))"

section \<open>Types and values as package reflect shows them\<close>

subsection \<open>reflect.Type\<close>

text \<open>The kinds of \<^verbatim>\<open>reflect.Kind\<close>; \<^verbatim>\<open>reflect.Int\<close> is \<open>Int_Kind\<close>.\<close>

datatype Kind =
    Invalid | Bool | Int_Kind | Int8 | Int16 | Int32 | Int64
  | Uint | Uint8 | Uint16 | Uint32 | Uint64 | Uintptr
  | Float32 | Float64 | Complex64 | Complex128
  | Array | Chan | Func | Interface | Map | Ptr | Slice | String | Struct | UnsafePointer

text \<open>
  A type is a predeclared or literal type the encoder never takes apart (\<open>Basic\<close>: its kind
  and its Go syntax), an array, map, pointer or slice type, or a defined type (\<open>Named\<close>: its
  name and its underlying type).  Two types are identical when they are equal.
\<close>

datatype gotype =
    Basic Kind string
  | ArrayOf nat gotype
  | MapOf gotype gotype
  | PtrTo gotype
  | SliceOf gotype
  | Named string gotype

fun Type_Kind :: "gotype \<Rightarrow> Kind" where
  "Type_Kind (Basic k s) = k"
| "Type_Kind (ArrayOf n t) = Array"
| "Type_Kind (MapOf k t) = Map"
| "Type_Kind (PtrTo t) = Ptr"
| "Type_Kind (SliceOf t) = Slice"
| "Type_Kind (Named s u) = Type_Kind u"

text \<open>
  \<^verbatim>\<open>t.Elem()\<close> and \<^verbatim>\<open>t.Key()\<close> panic on a type of another kind; the encoder calls them
  after it has looked at the kind.  Here they return the invalid type there.
\<close>

fun Type_Elem :: "gotype \<Rightarrow> gotype" where
  "Type_Elem (ArrayOf n t) = t"
| "Type_Elem (MapOf k t) = t"
| "Type_Elem (PtrTo t) = t"
| "Type_Elem (SliceOf t) = t"
| "Type_Elem (Named s u) = Type_Elem u"
| "Type_Elem (Basic k s) = Basic Invalid []"

fun Type_Key :: "gotype \<Rightarrow> gotype" where
  "Type_Key (MapOf k t) = k"
| "Type_Key (Named s u) = Type_Key u"
| "Type_Key t = Basic Invalid []"

fun Type_String :: "gotype \<Rightarrow> string" where
  "Type_String (Basic k s) = s"
| "Type_String (ArrayOf n t) = ''['' @ formatBits n @ '']'' @ Type_String t"
| "Type_String (MapOf k t) = ''map['' @ Type_String k @ '']'' @ Type_String t"
| "Type_String (PtrTo t) = ''*'' @ Type_String t"
| "Type_String (SliceOf t) = ''[]'' @ Type_String t"
| "Type_String (Named s u) = s"

text \<open>The types the encoder compares with (encode.go lines 159-164, and the package's own).\<close>

definition timeType :: gotype where
  "timeType = Named ''time.Time'' (Basic Struct ''struct { wall uint64; ext int64; loc *time.Location }'')"

definition textMarshalerType :: gotype where
  "textMarshalerType =
     Named ''encoding.TextMarshaler'' (Basic Interface ''interface { MarshalText() ([]uint8, error) }'')"

definition listType :: gotype where
  "listType = Named ''list.List'' (Basic Struct ''struct { root list.Element; len int }'')"

definition uuidType :: gotype where
  "uuidType = Named ''uuid.UUID'' (SliceOf (Basic Uint8 ''uint8''))"

definition setType :: gotype where
  "setType = Named ''edn.Set'' (MapOf (Basic Interface ''interface {}'') (Basic Bool ''bool''))"

definition keywordType :: gotype where
  "keywordType = Named ''edn.Keyword'' (Basic String ''string'')"

definition symbolType :: gotype where
  "symbolType = Named ''edn.Symbol'' (Basic String ''string'')"

definition keywordMapType :: gotype where
  "keywordMapType = Named ''edn.KMap'' (MapOf (Basic String ''string'') (Basic Interface ''interface {}''))"

subsection \<open>reflect.Value\<close>

text \<open>
  What a value holds, by kind.  Integers are the 64 bits \<^verbatim>\<open>v.Int()\<close> and \<^verbatim>\<open>v.Uint()\<close>
  return; an interface holds nothing or a dynamic type with its value; a map is nil or the
  list of its entries in the order \<^verbatim>\<open>MapKeys\<close> returns the keys; a slice is nil or its
  elements; a pointer is nil or what it points to.  A \<^verbatim>\<open>time.Time\<close> and a
  \<^verbatim>\<open>list.List\<close> (the \<^verbatim>\<open>Value\<close> fields of its elements, front to back) are held as what
  their methods give, any other struct as its fields.  \<open>DOpaque\<close> is a channel, a function, a
  complex number or an unsafe pointer: it is its identity, 0 for nil.
\<close>

datatype data =
    DBool bool
  | DInt "64 word"
  | DUint "64 word"
  | DFloat32 float32
  | DFloat64 float64
  | DString string
  | DInterface "(gotype \<times> data) option"
  | DMap "(data \<times> data) list option"
  | DSlice "data list option"
  | DArray "data list"
  | DPtr "data option"
  | DStruct "data list"
  | DTime Time
  | DList "(gotype \<times> data) option list"
  | DOpaque nat

text \<open>
  A \<^verbatim>\<open>reflect.Value\<close> is the zero Value or a type, the flag \<^verbatim>\<open>CanAddr\<close> and the data.
  The methods below read the data the way the kind of a well-typed value says; a method
  called on a value of another kind panics with a \<^verbatim>\<open>*reflect.ValueError\<close>.
\<close>

datatype Value = ZeroValue | Val gotype bool data

text \<open>An interface value \<^verbatim>\<open>interface{}\<close>, the argument of \<^verbatim>\<open>Marshal\<close>.\<close>

type_synonym interface = "(gotype \<times> data) option"

subsection \<open>Errors and panics\<close>

datatype error =
    UnsupportedTypeError gotype
  | UnsupportedValueError Value string
  | MarshalerError gotype error
  | ValueError string Kind
  | errorString string

text \<open>
  A panic carries an \<^verbatim>\<open>error\<close> (\<^verbatim>\<open>e.error(err)\<close>, or a \<^verbatim>\<open>*reflect.ValueError\<close>), a
  \<^verbatim>\<open>runtime.Error\<close> or a string.
\<close>

datatype fault = PanicError error | PanicRuntime string | PanicString string

fun Kind_String :: "Kind \<Rightarrow> string" where
  "Kind_String Invalid = ''invalid''" | "Kind_String Bool = ''bool''" | "Kind_String Int_Kind = ''int''"
| "Kind_String Int8 = ''int8''" | "Kind_String Int16 = ''int16''" | "Kind_String Int32 = ''int32''"
| "Kind_String Int64 = ''int64''" | "Kind_String Uint = ''uint''" | "Kind_String Uint8 = ''uint8''"
| "Kind_String Uint16 = ''uint16''" | "Kind_String Uint32 = ''uint32''"
| "Kind_String Uint64 = ''uint64''" | "Kind_String Uintptr = ''uintptr''"
| "Kind_String Float32 = ''float32''" | "Kind_String Float64 = ''float64''"
| "Kind_String Complex64 = ''complex64''" | "Kind_String Complex128 = ''complex128''"
| "Kind_String Array = ''array''" | "Kind_String Chan = ''chan''" | "Kind_String Func = ''func''"
| "Kind_String Interface = ''interface''" | "Kind_String Map = ''map''" | "Kind_String Ptr = ''ptr''"
| "Kind_String Slice = ''slice''" | "Kind_String String = ''string''"
| "Kind_String Struct = ''struct''" | "Kind_String UnsafePointer = ''unsafe.Pointer''"

text \<open>The \<^verbatim>\<open>Error\<close> methods (encode.go lines 47, 56, 65).\<close>

fun Error :: "error \<Rightarrow> string" where
  "Error (UnsupportedTypeError t) = ''edn: unsupported type: '' @ Type_String t"
| "Error (UnsupportedValueError v str) = ''edn: unsupported value: '' @ str"
| "Error (MarshalerError t err) =
     ''edn: error calling MarshalEDN for type '' @ Type_String t @ '': '' @ Error err"
| "Error (ValueError method k) =
     (if k = Invalid then ''reflect: call of '' @ method @ '' on zero Value''
      else ''reflect: call of '' @ method @ '' on '' @ Kind_String k @ '' Value'')"
| "Error (errorString s) = s"

subsection \<open>Method sets\<close>

text \<open>
  What the encoder needs to know of the program whose values it encodes: for each type the
  method \<^verbatim>\<open>MarshalText() ([]byte, error)\<close> of its method set, if it has one, as a
  function of the receiver; and the Unicode tables of \<^verbatim>\<open>strconv.IsPrint\<close>.
\<close>

record program =
  MarshalText :: "gotype \<Rightarrow> (data \<Rightarrow> string \<times> error option) option"
  isPrintTable :: "nat \<Rightarrow> bool"

text \<open>
  Go gives a method set to defined types, to struct and interface types, and to pointers
  to defined and struct types; every other type has no method.  The types this package
  defines (\<^verbatim>\<open>Set\<close>, \<^verbatim>\<open>Keyword\<close>, \<^verbatim>\<open>Symbol\<close>, \<^verbatim>\<open>KMap\<close>) have no method
  \<^verbatim>\<open>MarshalText\<close>.
\<close>

fun mayHaveMethods :: "gotype \<Rightarrow> bool" where
  "mayHaveMethods (Named s u) = (s \<notin> {''edn.Set'', ''edn.Keyword'', ''edn.Symbol'', ''edn.KMap''})"
| "mayHaveMethods (PtrTo (Named s u)) = (s \<notin> {''edn.Set'', ''edn.Keyword'', ''edn.Symbol'', ''edn.KMap''})"
| "mayHaveMethods (PtrTo (Basic k s)) = (k = Struct)"
| "mayHaveMethods (Basic k s) = (k = Struct \<or> k = Interface)"
| "mayHaveMethods t = False"

text \<open>
  \<^verbatim>\<open>t.Implements(u)\<close>, for the one interface type the encoder asks about,
  \<^verbatim>\<open>encoding.TextMarshaler\<close>.
\<close>

definition Implements :: "program \<Rightarrow> gotype \<Rightarrow> gotype \<Rightarrow> bool" where
  "Implements P t u = (u = textMarshalerType \<and> mayHaveMethods t \<and> MarshalText P t \<noteq> None)"

section \<open>Encoders\<close>

subsection \<open>Choosing the encoder of a type\<close>

text \<open>
  An \<^verbatim>\<open>encoderFunc\<close> is one of the functions of encode.go or a closure over the encoders
  of the parts of a type (\<^verbatim>\<open>mapEncoder\<close>, \<^verbatim>\<open>sliceEncoder\<close>, \<^verbatim>\<open>arrayEncoder\<close>,
  \<^verbatim>\<open>ptrEncoder\<close>, \<^verbatim>\<open>condAddrEncoder\<close>, and \<^verbatim>\<open>floatEncoder\<close> with its number of
  bits).  What each of them does is the function \<open>call\<close> below.
\<close>

datatype encoderFunc =
    invalidValueEncoder | timeEncoder | textMarshalerEncoder | addrTextMarshalerEncoder
  | boolEncoder | intEncoder | uintEncoder | floatEncoder nat | stringEncoder
  | interfaceEncoder | unsupportedTypeEncoder
  | mapEncoder encoderFunc encoderFunc
  | encodeByteSlice | encodeUuid
  | sliceEncoder encoderFunc | arrayEncoder encoderFunc | ptrEncoder encoderFunc
  | condAddrEncoder encoderFunc encoderFunc
  | listEncoder

definition float32Encoder :: encoderFunc where
  "float32Encoder = floatEncoder 32"

definition float64Encoder :: encoderFunc where
  "float64Encoder = floatEncoder 64"

definition newCondAddrEncoder :: "encoderFunc \<Rightarrow> encoderFunc \<Rightarrow> encoderFunc" where
  "newCondAddrEncoder canAddrEnc elseEnc = condAddrEncoder canAddrEnc elseEnc"

text \<open>A size of types that decreases from a type to its element and key types.\<close>

fun tsz :: "gotype \<Rightarrow> nat" where
  "tsz (Basic k s) = (if k = Invalid then 0 else 1)"
| "tsz (ArrayOf n t) = Suc (tsz t)"
| "tsz (MapOf k t) = Suc (tsz k + tsz t)"
| "tsz (PtrTo t) = Suc (tsz t)"
| "tsz (SliceOf t) = Suc (tsz t)"
| "tsz (Named s u) = Suc (tsz u)"

lemma tsz_Elem:
  "Type_Kind t = Array \<or> Type_Kind t = Ptr \<or> Type_Kind t = Slice \<Longrightarrow> tsz (Type_Elem t) < tsz t"
  by (induction t) auto

lemma tsz_Key_Elem: "Type_Kind t = Map \<Longrightarrow> tsz (Type_Key t) + tsz (Type_Elem t) < tsz t"
  by (induction t) auto

text \<open>
  \<^verbatim>\<open>typeEncoder\<close> looks the type up in \<^verbatim>\<open>encoderCache\<close> and, when it is not there, stores
  and returns what \<^verbatim>\<open>newTypeEncoder(t, true)\<close> builds: it is that encoder.
\<close>

function typeEncoder :: "program \<Rightarrow> gotype \<Rightarrow> encoderFunc"
  and newTypeEncoder :: "program \<Rightarrow> gotype \<Rightarrow> bool \<Rightarrow> encoderFunc"
  and newMapEncoder :: "program \<Rightarrow> gotype \<Rightarrow> encoderFunc"
  and newSliceEncoder :: "program \<Rightarrow> gotype \<Rightarrow> encoderFunc"
  and newArrayEncoder :: "program \<Rightarrow> gotype \<Rightarrow> encoderFunc"
  and newPtrEncoder :: "program \<Rightarrow> gotype \<Rightarrow> encoderFunc"
where
  "typeEncoder P t = newTypeEncoder P t True"
| "newTypeEncoder P t allowAddr =
     (if t = timeType then timeEncoder
      else if Type_Kind t = Ptr \<and> Type_Elem t = timeType then newPtrEncoder P t
      else if Implements P t textMarshalerType then textMarshalerEncoder
      else if Type_Kind t \<noteq> Ptr \<and> allowAddr \<and> Implements P (PtrTo t) textMarshalerType
        then newCondAddrEncoder addrTextMarshalerEncoder (newTypeEncoder P t False)
      else (case Type_Kind t of
              Bool \<Rightarrow> boolEncoder
            | Int_Kind \<Rightarrow> intEncoder | Int8 \<Rightarrow> intEncoder | Int16 \<Rightarrow> intEncoder
            | Int32 \<Rightarrow> intEncoder | Int64 \<Rightarrow> intEncoder
            | Uint \<Rightarrow> uintEncoder | Uint8 \<Rightarrow> uintEncoder | Uint16 \<Rightarrow> uintEncoder
            | Uint32 \<Rightarrow> uintEncoder | Uint64 \<Rightarrow> uintEncoder | Uintptr \<Rightarrow> uintEncoder
            | Float32 \<Rightarrow> float32Encoder
            | Float64 \<Rightarrow> float64Encoder
            | String \<Rightarrow> stringEncoder
            | Interface \<Rightarrow> interfaceEncoder
            | Map \<Rightarrow> newMapEncoder P t
            | Slice \<Rightarrow> newSliceEncoder P t
            | Array \<Rightarrow> newArrayEncoder P t
            | Ptr \<Rightarrow> newPtrEncoder P t
            | _ \<Rightarrow> if t = listType then listEncoder else unsupportedTypeEncoder))"
| "newMapEncoder P t = mapEncoder (typeEncoder P (Type_Key t)) (typeEncoder P (Type_Elem t))"
| "newSliceEncoder P t =
     (if Type_Kind (Type_Elem t) = Uint8
      then (if t = uuidType then encodeUuid else encodeByteSlice)
      else sliceEncoder (newArrayEncoder P t))"
| "newArrayEncoder P t = arrayEncoder (typeEncoder P (Type_Elem t))"
| "newPtrEncoder P t = ptrEncoder (typeEncoder P (Type_Elem t))"
  by pat_completeness auto
termination
proof (relation "measure (\<lambda>x. case x of
          Inl (Inl (P, t)) \<Rightarrow> 8 * tsz t + 2
        | Inl (Inr (Inl (P, t, allowAddr))) \<Rightarrow> 8 * tsz t + (if allowAddr then 1 else 0)
        | Inl (Inr (Inr (P, t))) \<Rightarrow> 8 * (tsz (Type_Key t) + tsz (Type_Elem t)) + 3
        | Inr (Inl (P, t)) \<Rightarrow> 8 * tsz (Type_Elem t) + 4
        | Inr (Inr (Inl (P, t))) \<Rightarrow> 8 * tsz (Type_Elem t) + 3
        | Inr (Inr (Inr (P, t))) \<Rightarrow> 8 * tsz (Type_Elem t) + 3)", goal_cases)
  case 1 show ?case by simp
next
  case (2 P t) then show ?case by simp
next
  case (3 P t allowAddr) then show ?case using tsz_Elem [of t] by simp
next
  case (4 P t allowAddr) then show ?case by simp
next
  case (5 P t allowAddr) then show ?case using tsz_Elem [of t] by simp
next
  case (6 P t allowAddr) then show ?case using tsz_Key_Elem [of t] by simp
next
  case (7 P t allowAddr) then show ?case using tsz_Elem [of t] by simp
next
  case (8 P t allowAddr) then show ?case using tsz_Elem [of t] by simp
next
  case (9 P t) then show ?case by simp
next
  case (10 P t) then show ?case by simp
next
  case (11 P t) then show ?case by simp
next
  case (12 P t) then show ?case by simp
next
  case (13 P t) then show ?case by simp
qed

declare typeEncoder.simps [simp del] newTypeEncoder.simps [simp del] newMapEncoder.simps [simp del]
  newSliceEncoder.simps [simp del] newArrayEncoder.simps [simp del] newPtrEncoder.simps [simp del]

subsection \<open>Methods of reflect.Value\<close>

definition ValueOf :: "interface \<Rightarrow> Value" where
  "ValueOf i = (case i of None \<Rightarrow> ZeroValue | Some (t, d) \<Rightarrow> Val t False d)"

definition IsValid :: "Value \<Rightarrow> bool" where
  "IsValid v = (v \<noteq> ZeroValue)"

definition Value_Kind :: "Value \<Rightarrow> Kind" where
  "Value_Kind v = (case v of ZeroValue \<Rightarrow> Invalid | Val t a d \<Rightarrow> Type_Kind t)"

definition Value_Type :: "Value \<Rightarrow> fault + gotype" where
  "Value_Type v = (case v of ZeroValue \<Rightarrow> Inl (PanicError (ValueError ''reflect.Value.Type'' Invalid))
                   | Val t a d \<Rightarrow> Inr t)"

definition CanAddr :: "Value \<Rightarrow> bool" where
  "CanAddr v = (case v of ZeroValue \<Rightarrow> False | Val t a d \<Rightarrow> a)"

definition Value_IsNil :: "Value \<Rightarrow> fault + bool" where
  "Value_IsNil v =
     (case v of
        Val t a (DInterface x) \<Rightarrow> Inr (x = None)
      | Val t a (DMap x) \<Rightarrow> Inr (x = None)
      | Val t a (DSlice x) \<Rightarrow> Inr (x = None)
      | Val t a (DPtr x) \<Rightarrow> Inr (x = None)
      | Val t a (DOpaque n) \<Rightarrow>
          if Type_Kind t = Chan \<or> Type_Kind t = Func \<or> Type_Kind t = UnsafePointer then Inr (n = 0)
          else Inl (PanicError (ValueError ''reflect.Value.IsNil'' (Type_Kind t)))
      | _ \<Rightarrow> Inl (PanicError (ValueError ''reflect.Value.IsNil'' (Value_Kind v))))"

definition Value_Bool :: "Value \<Rightarrow> fault + bool" where
  "Value_Bool v = (case v of Val t a (DBool b) \<Rightarrow> Inr b
                   | _ \<Rightarrow> Inl (PanicError (ValueError ''reflect.Value.Bool'' (Value_Kind v))))"

definition Value_Int :: "Value \<Rightarrow> fault + 64 word" where
  "Value_Int v = (case v of Val t a (DInt i) \<Rightarrow> Inr i
                  | _ \<Rightarrow> Inl (PanicError (ValueError ''reflect.Value.Int'' (Value_Kind v))))"

definition Value_Uint :: "Value \<Rightarrow> fault + 64 word" where
  "Value_Uint v = (case v of Val t a (DUint u) \<Rightarrow> Inr u
                   | _ \<Rightarrow> Inl (PanicError (ValueError ''reflect.Value.Uint'' (Value_Kind v))))"

definition Value_Float :: "Value \<Rightarrow> fault + float64" where
  "Value_Float v = (case v of Val t a (DFloat32 x) \<Rightarrow> Inr (float64_of_float32 x)
                    | Val t a (DFloat64 f) \<Rightarrow> Inr f
                    | _ \<Rightarrow> Inl (PanicError (ValueError ''reflect.Value.Float'' (Value_Kind v))))"

text \<open>\<^verbatim>\<open>v.String()\<close> does not panic: on another kind it names the type.\<close>

definition Value_String :: "Value \<Rightarrow> string" where
  "Value_String v = (case v of ZeroValue \<Rightarrow> ''<invalid Value>''
                     | Val t a (DString s) \<Rightarrow> s
                     | Val t a d \<Rightarrow> ''<'' @ Type_String t @ '' Value>'')"

definition Value_Bytes :: "Value \<Rightarrow> fault + nat list" where
  "Value_Bytes v =
     (case v of
        Val t a (DSlice x) \<Rightarrow>
          if Type_Kind (Type_Elem t) \<noteq> Uint8 then Inl (PanicString ''reflect.Value.Bytes of non-byte slice'')
          else Inr (case x of None \<Rightarrow> []
                    | Some xs \<Rightarrow> map (\<lambda>d. case d of DUint u \<Rightarrow> unat u mod 256 | _ \<Rightarrow> 0) xs)
      | _ \<Rightarrow> Inl (PanicError (ValueError ''reflect.Value.Bytes'' (Value_Kind v))))"

definition Value_Len :: "Value \<Rightarrow> fault + nat" where
  "Value_Len v =
     (case v of
        Val t a (DSlice x) \<Rightarrow> Inr (case x of None \<Rightarrow> 0 | Some xs \<Rightarrow> length xs)
      | Val t a (DArray xs) \<Rightarrow> Inr (length xs)
      | Val t a (DMap x) \<Rightarrow> Inr (case x of None \<Rightarrow> 0 | Some kvs \<Rightarrow> length kvs)
      | Val t a (DString s) \<Rightarrow> Inr (length s)
      | _ \<Rightarrow> Inl (PanicError (ValueError ''reflect.Value.Len'' (Value_Kind v))))"

text \<open>An element of a slice can be addressed; an element of an array if the array can.\<close>

definition Value_Index :: "Value \<Rightarrow> nat \<Rightarrow> fault + Value" where
  "Value_Index v i =
     (case v of
        Val t a (DSlice x) \<Rightarrow>
          (case x of Some xs \<Rightarrow> if i < length xs then Inr (Val (Type_Elem t) True (xs ! i))
                                 else Inl (PanicString ''reflect: slice index out of range'')
           | None \<Rightarrow> Inl (PanicString ''reflect: slice index out of range''))
      | Val t a (DArray xs) \<Rightarrow>
          if i < length xs then Inr (Val (Type_Elem t) a (xs ! i))
          else Inl (PanicString ''reflect: array index out of range'')
      | _ \<Rightarrow> Inl (PanicError (ValueError ''reflect.Value.Index'' (Value_Kind v))))"

text \<open>
  \<^verbatim>\<open>v.Elem()\<close>: what an interface holds (not addressable) or what a pointer points to
  (addressable); the zero Value if \<open>v\<close> is nil.
\<close>

definition Value_Elem :: "Value \<Rightarrow> fault + Value" where
  "Value_Elem v =
     (case v of
        Val t a (DInterface x) \<Rightarrow> Inr (case x of None \<Rightarrow> ZeroValue | Some (dt, d) \<Rightarrow> Val dt False d)
      | Val t a (DPtr x) \<Rightarrow> Inr (case x of None \<Rightarrow> ZeroValue | Some d \<Rightarrow> Val (Type_Elem t) True d)
      | _ \<Rightarrow> Inl (PanicError (ValueError ''reflect.Value.Elem'' (Value_Kind v))))"

definition MapKeys :: "Value \<Rightarrow> fault + Value list" where
  "MapKeys v =
     (case v of
        Val t a (DMap x) \<Rightarrow>
          Inr (case x of None \<Rightarrow> [] | Some kvs \<Rightarrow> map (\<lambda>kv. Val (Type_Key t) False (fst kv)) kvs)
      | _ \<Rightarrow> Inl (PanicError (ValueError ''reflect.Value.MapKeys'' (Value_Kind v))))"

text \<open>
  A key is found in a map if it is equal to itself, which a NaN is not.  The keys of a map
  are different from each other, so the entry found is the entry of the key.
\<close>

fun reflexive :: "data \<Rightarrow> bool" where
  "reflexive (DFloat32 x) = (\<not> IsNaN (float64_of_float32 x))"
| "reflexive (DFloat64 f) = (\<not> IsNaN f)"
| "reflexive (DInterface None) = True"
| "reflexive (DInterface (Some (t, d))) = reflexive d"
| "reflexive (DArray xs) = list_all reflexive xs"
| "reflexive (DStruct xs) = list_all reflexive xs"
| "reflexive d = True"

definition MapIndex :: "Value \<Rightarrow> Value \<Rightarrow> fault + Value" where
  "MapIndex v key =
     (case v of
        Val t a (DMap x) \<Rightarrow>
          (case key of
             ZeroValue \<Rightarrow> Inl (PanicError (ValueError ''reflect.Value.MapIndex'' Invalid))
           | Val kt ka k \<Rightarrow>
               (case x of
                  None \<Rightarrow> Inr ZeroValue
                | Some kvs \<Rightarrow>
                    (case filter (\<lambda>kv. fst kv = k) kvs of
                       [] \<Rightarrow> Inr ZeroValue
                     | kv # _ \<Rightarrow> if reflexive k then Inr (Val (Type_Elem t) False (snd kv))
                                 else Inr ZeroValue)))
      | _ \<Rightarrow> Inl (PanicError (ValueError ''reflect.Value.MapIndex'' (Value_Kind v))))"

definition Value_Addr :: "Value \<Rightarrow> fault + Value" where
  "Value_Addr v =
     (case v of
        Val t True d \<Rightarrow> Inr (Val (PtrTo t) False (DPtr (Some d)))
      | _ \<Rightarrow> Inl (PanicString ''reflect.Value.Addr of unaddressable value''))"

text \<open>\<^verbatim>\<open>v.Interface().(time.Time)\<close> and \<^verbatim>\<open>v.Interface().(list.List)\<close>\<close>

definition Value_Interface_Time :: "Value \<Rightarrow> fault + Time" where
  "Value_Interface_Time v =
     (case v of
        ZeroValue \<Rightarrow> Inl (PanicError (ValueError ''reflect.Value.Interface'' Invalid))
      | Val t a (DTime tm) \<Rightarrow>
          if t = timeType then Inr tm else Inl (PanicRuntime ''interface conversion: not time.Time'')
      | _ \<Rightarrow> Inl (PanicRuntime ''interface conversion: not time.Time''))"

definition Value_Interface_List :: "Value \<Rightarrow> fault + interface list" where
  "Value_Interface_List v =
     (case v of
        ZeroValue \<Rightarrow> Inl (PanicError (ValueError ''reflect.Value.Interface'' Invalid))
      | Val t a (DList l) \<Rightarrow>
          if t = listType then Inr l else Inl (PanicRuntime ''interface conversion: not list.List'')
      | _ \<Rightarrow> Inl (PanicRuntime ''interface conversion: not list.List''))"

text \<open>
  \<^verbatim>\<open>m := v.Interface().(encoding.TextMarshaler); b, err := m.MarshalText()\<close>: the method
  is the one of the type of \<open>v\<close>, or of the dynamic type if \<open>v\<close> is an interface; the
  assertion panics with a \<^verbatim>\<open>runtime.Error\<close> where there is none.
\<close>

definition Value_MarshalText :: "program \<Rightarrow> Value \<Rightarrow> fault + string \<times> error option" where
  "Value_MarshalText P v =
     (case v of
        ZeroValue \<Rightarrow> Inl (PanicError (ValueError ''reflect.Value.Interface'' Invalid))
      | Val t a d \<Rightarrow>
          (case (if Type_Kind t = Interface
                 then (case d of DInterface (Some (dt, dd)) \<Rightarrow> Some (dt, dd) | _ \<Rightarrow> None)
                 else Some (t, d)) of
             None \<Rightarrow> Inl (PanicRuntime ''interface conversion: interface is nil, not encoding.TextMarshaler'')
           | Some (dt, dd) \<Rightarrow>
               (case MarshalText P dt of
                  Some m \<Rightarrow> if mayHaveMethods dt then Inr (m dd)
                            else Inl (PanicRuntime ''interface conversion: missing method MarshalText'')
                | None \<Rightarrow> Inl (PanicRuntime ''interface conversion: missing method MarshalText''))))"

subsection \<open>encodeState\<close>

text \<open>
  The \<^verbatim>\<open>bytes.Buffer\<close> of an \<^verbatim>\<open>encodeState\<close>: nil (\<open>None\<close>) until bytes are written to it.
  (The field \<^verbatim>\<open>scratch\<close> is the memory \<^verbatim>\<open>AppendInt\<close> and \<^verbatim>\<open>AppendFloat\<close> build their
  result in, written to the buffer at once.)
\<close>

record encodeState =
  Buffer :: "string option"

definition contents :: "encodeState \<Rightarrow> string" where
  "contents e = (case Buffer e of None \<Rightarrow> [] | Some b \<Rightarrow> b)"

definition Buffer_Write :: "encodeState \<Rightarrow> string \<Rightarrow> encodeState" where
  "Buffer_Write e p = (if p = [] then e else e\<lparr>Buffer := Some (contents e @ p)\<rparr>)"

definition WriteString :: "encodeState \<Rightarrow> string \<Rightarrow> encodeState" where
  "WriteString e s = (if s = [] then e else e\<lparr>Buffer := Some (contents e @ s)\<rparr>)"

definition WriteByte :: "encodeState \<Rightarrow> char \<Rightarrow> encodeState" where
  "WriteByte e c = e\<lparr>Buffer := Some (contents e @ [c])\<rparr>"

definition Bytes :: "encodeState \<Rightarrow> string option" where
  "Bytes e = Buffer e"

definition Len :: "encodeState \<Rightarrow> nat" where
  "Len e = length (contents e)"

definition Reset :: "encodeState \<Rightarrow> encodeState" where
  "Reset e = e\<lparr>Buffer := map_option (\<lambda>b. []) (Buffer e)\<rparr>"

text \<open>
  An encoder returns the buffer and, if it panicked, the panic.  \<open>orPanic\<close> goes on with the
  result of a call that may panic, \<open>andThen\<close> with the buffer of an encoder that did not.
\<close>

type_synonym result = "encodeState \<times> fault option"

definition ok :: "encodeState \<Rightarrow> result" where
  "ok e = (e, None)"

definition orPanic :: "fault + 'a \<Rightarrow> encodeState \<Rightarrow> ('a \<Rightarrow> result) \<Rightarrow> result" where
  "orPanic m e k = (case m of Inl f \<Rightarrow> (e, Some f) | Inr x \<Rightarrow> k x)"

definition andThen :: "result \<Rightarrow> (encodeState \<Rightarrow> result) \<Rightarrow> result" where
  "andThen r k = (case r of (e, None) \<Rightarrow> k e | (e, Some f) \<Rightarrow> (e, Some f))"

lemma orPanic_cong [fundef_cong]:
  "m = m' \<Longrightarrow> e = e' \<Longrightarrow> (\<And>x. m' = Inr x \<Longrightarrow> k x = k' x) \<Longrightarrow> orPanic m e k = orPanic m' e' k'"
  by (auto simp: orPanic_def split: sum.splits)

lemma andThen_cong [fundef_cong]:
  "r = r' \<Longrightarrow> (\<And>e. r' = (e, None) \<Longrightarrow> k e = k' e) \<Longrightarrow> andThen r k = andThen r' k'"
  by (auto simp: andThen_def split: prod.splits option.splits)

text \<open>\<^verbatim>\<open>func (e *encodeState) error(err error) { panic(err) }\<close>\<close>

definition encodeState_error :: "encodeState \<Rightarrow> error \<Rightarrow> result" where
  "encodeState_error e err = (e, Some (PanicError err))"

text \<open>
  \<^verbatim>\<open>e.string(s)\<close> and \<^verbatim>\<open>e.stringBytes(s)\<close> write \<^verbatim>\<open>fmt.Sprintf("%#v", s)\<close>, which for
  a string is \<^verbatim>\<open>strconv.Quote(s)\<close>, and return the number of bytes written and a nil error.
\<close>

definition encodeState_string :: "program \<Rightarrow> encodeState \<Rightarrow> string \<Rightarrow> encodeState \<times> nat \<times> error option" where
  "encodeState_string P e s =
     (let len0 = Len e; e' = WriteString e (Quote (isPrintTable P) s) in (e', Len e' - len0, None))"

definition stringBytes :: "program \<Rightarrow> encodeState \<Rightarrow> string \<Rightarrow> encodeState \<times> nat \<times> error option" where
  "stringBytes P e s =
     (let len0 = Len e; e' = WriteString e (Quote (isPrintTable P) s) in (e', Len e' - len0, None))"

text \<open>\<^verbatim>\<open>valueEncoder\<close> (encode.go line 118)\<close>

definition valueEncoder :: "program \<Rightarrow> Value \<Rightarrow> encoderFunc" where
  "valueEncoder P v = (if \<not> IsValid v then invalidValueEncoder
                       else case v of Val t a d \<Rightarrow> typeEncoder P t | ZeroValue \<Rightarrow> invalidValueEncoder)"


subsection \<open>What each encoder does\<close>

text \<open>The size of what a value holds, and the number of keys of a map.\<close>

definition vsize :: "Value \<Rightarrow> nat" where
  "vsize v = (case v of ZeroValue \<Rightarrow> 0 | Val t a d \<Rightarrow> size d)"

definition nkeys :: "Value \<Rightarrow> nat" where
  "nkeys v = (case MapKeys v of Inr keys \<Rightarrow> length keys | Inl f \<Rightarrow> 0)"

lemma size_mem_less: "x \<in> set xs \<Longrightarrow> size x < Suc (size_list size xs)"
  by (induction xs) auto

lemma size_fst_mem_less: "kv \<in> set kvs \<Longrightarrow> size (fst kv) < Suc (size_list (size_prod size size) kvs)"
  by (induction kvs) (auto split: prod.splits)

lemma size_snd_mem_less: "kv \<in> set kvs \<Longrightarrow> size (snd kv) < Suc (size_list (size_prod size size) kvs)"
  by (induction kvs) (auto split: prod.splits)

lemma vsize_Elem: "Value_Elem v = Inr v' \<Longrightarrow> vsize v' < vsize v"
  by (auto simp: Value_Elem_def vsize_def split: Value.splits data.splits option.splits)

lemma vsize_Index: "Value_Index v i = Inr x \<Longrightarrow> vsize x < vsize v"
  using size_mem_less [OF nth_mem]
  by (fastforce simp: Value_Index_def vsize_def less_Suc_eq split: Value.splits data.splits option.splits if_splits)

lemma vsize_MapKeys: "MapKeys v = Inr keys \<Longrightarrow> i < length keys \<Longrightarrow> vsize (keys ! i) < vsize v"
  using size_fst_mem_less [OF nth_mem]
  by (fastforce simp: MapKeys_def vsize_def less_Suc_eq split: Value.splits data.splits option.splits)

lemma filter_hd_mem: "filter p kvs = kv # rest \<Longrightarrow> kv \<in> set kvs"
  by (induction kvs) (auto split: if_splits)

lemma vsize_MapIndex: "MapIndex v k = Inr x \<Longrightarrow> vsize x < vsize v"
  using size_snd_mem_less [OF filter_hd_mem]
  by (fastforce simp: MapIndex_def vsize_def less_Suc_eq split: Value.splits data.splits option.splits list.splits if_splits)

lemma vsize_Interface_List: "Value_Interface_List v = Inr l \<Longrightarrow> vsize v = size (DList l)"
  by (auto simp: Value_Interface_List_def vsize_def split: Value.splits data.splits if_splits)

lemma vsize_ValueOf:
  "vsize (ValueOf node) < Suc (Suc (size_option (size_prod (\<lambda>x. 0) size) node + n))"
  by (auto simp: ValueOf_def vsize_def split: option.splits)

text \<open>
  \<open>call P f e v\<close> is the call \<^verbatim>\<open>f(e, v)\<close> of the encoder \<open>f\<close>; the loops of
  \<^verbatim>\<open>arrayEncoder.encode\<close>, \<^verbatim>\<open>mapEncoder.encode\<close> and \<^verbatim>\<open>listEncoder\<close> are functions of
  the index.  (\<^verbatim>\<open>mapEncoder.encode\<close> ranges over \<^verbatim>\<open>v.MapKeys()\<close>, the same keys at every
  step.)
\<close>

function call :: "program \<Rightarrow> encoderFunc \<Rightarrow> encodeState \<Rightarrow> Value \<Rightarrow> result"
  and reflectValue :: "program \<Rightarrow> encodeState \<Rightarrow> Value \<Rightarrow> result"
  and arrayEncoder_loop :: "program \<Rightarrow> encoderFunc \<Rightarrow> encodeState \<Rightarrow> Value \<Rightarrow> nat \<Rightarrow> nat \<Rightarrow> result"
  and mapEncoder_loop ::
    "program \<Rightarrow> encoderFunc \<Rightarrow> encoderFunc \<Rightarrow> bool \<Rightarrow> string \<Rightarrow> encodeState \<Rightarrow> Value \<Rightarrow> nat \<Rightarrow> result"
  and listEncoder_loop :: "program \<Rightarrow> encodeState \<Rightarrow> interface list \<Rightarrow> nat \<Rightarrow> result"
where
  "reflectValue P e v = call P (valueEncoder P v) e v"
| "call P invalidValueEncoder e v = ok (WriteString e ''nil'')"
| "call P timeEncoder e v =
     orPanic (Value_Interface_Time v) e (\<lambda>t.
       case encodeState_string P (WriteString e ''#inst '') (Format_RFC3339Nano t) of
         (e', n, Some err) \<Rightarrow> encodeState_error e' err
       | (e', n, None) \<Rightarrow> ok e')"
| "call P textMarshalerEncoder e v =
     orPanic (if Value_Kind v = Ptr then Value_IsNil v else Inr False) e (\<lambda>isNil.
       if isNil then ok (WriteString e ''nil'')
       else orPanic (Value_MarshalText P v) e (\<lambda>(b, err).
         case (case err of None \<Rightarrow> (case stringBytes P e b of (e', n, err') \<Rightarrow> (e', err'))
               | Some x \<Rightarrow> (e, err)) of
           (e', Some err') \<Rightarrow>
             orPanic (Value_Type v) e' (\<lambda>t. encodeState_error e' (MarshalerError t err'))
         | (e', None) \<Rightarrow> ok e'))"
| "call P addrTextMarshalerEncoder e v =
     orPanic (Value_Addr v) e (\<lambda>va.
       orPanic (Value_IsNil va) e (\<lambda>isNil.
         if isNil then ok (WriteString e ''nil'')
         else orPanic (Value_MarshalText P va) e (\<lambda>(b, err).
           case (case err of None \<Rightarrow> (case stringBytes P e b of (e', n, err') \<Rightarrow> (e', err'))
                 | Some x \<Rightarrow> (e, err)) of
             (e', Some err') \<Rightarrow>
               orPanic (Value_Type v) e' (\<lambda>t. encodeState_error e' (MarshalerError t err'))
           | (e', None) \<Rightarrow> ok e')))"
| "call P boolEncoder e v =
     orPanic (Value_Bool v) e (\<lambda>b.
       if b then ok (WriteString e ''true'') else ok (WriteString e ''false''))"
| "call P intEncoder e v =
     orPanic (Value_Int v) e (\<lambda>i. ok (Buffer_Write e (AppendInt [] i)))"
| "call P uintEncoder e v =
     orPanic (Value_Uint v) e (\<lambda>u. ok (Buffer_Write e (AppendUint [] u)))"
| "call P (floatEncoder bits) e v =
     orPanic (Value_Float v) e (\<lambda>f.
       if IsInf f 0 \<or> IsNaN f
       then (case FormatFloat f bits of
               Some str \<Rightarrow> encodeState_error e (UnsupportedValueError v str)
             | None \<Rightarrow> (e, Some (PanicString ''strconv: illegal AppendFloat/FormatFloat bitSize'')))
       else (case AppendFloat [] f bits of
               Some b \<Rightarrow> ok (Buffer_Write e b)
             | None \<Rightarrow> (e, Some (PanicString ''strconv: illegal AppendFloat/FormatFloat bitSize''))))"
| "call P stringEncoder e v =
     (let s = Value_String v in
      orPanic (Value_Type v) e (\<lambda>t.
        if t = symbolType \<or> t = keywordType
        then ok (WriteString (if t = keywordType \<and> \<not> HasPrefix s '':'' then WriteByte e (CHR '':'') else e) s)
        else ok (fst (encodeState_string P e s))))"
| "call P interfaceEncoder e v =
     orPanic (Value_IsNil v) e (\<lambda>isNil.
       if isNil then ok (WriteString e ''nil'')
       else orPanic (Value_Elem v) e (\<lambda>v'. reflectValue P e v'))"
| "call P unsupportedTypeEncoder e v =
     orPanic (Value_Type v) e (\<lambda>t. encodeState_error e (UnsupportedTypeError t))"
| "call P (mapEncoder keyEnc elemEnc) e v =
     orPanic (Value_Type v) e (\<lambda>t.
       let isSet = (t = setType);
           sep = (if isSet then '' '' else '', '');
           e1 = (if isSet then WriteByte e (CHR ''#'') else e)
       in orPanic (Value_IsNil v) e1 (\<lambda>isNil.
            if isNil then ok (WriteString e1 ''{}'')
            else andThen (mapEncoder_loop P keyEnc elemEnc isSet sep (WriteByte e1 (CHR ''{'')) v 0)
                   (\<lambda>e2. ok (WriteByte e2 (CHR ''}'')))))"
| "mapEncoder_loop P keyEnc elemEnc isSet sep e v i =
     orPanic (MapKeys v) e (\<lambda>keys.
       if i < length keys then
         let e1 = (if 0 < i then WriteString e sep else e) in
         andThen (call P keyEnc e1 (keys ! i)) (\<lambda>e2.
           if \<not> isSet then
             orPanic (MapIndex v (keys ! i)) (WriteByte e2 (CHR '' '')) (\<lambda>x.
               andThen (call P elemEnc (WriteByte e2 (CHR '' '')) x) (\<lambda>e3.
                 mapEncoder_loop P keyEnc elemEnc isSet sep e3 v (i + 1)))
           else mapEncoder_loop P keyEnc elemEnc isSet sep e2 v (i + 1))
       else ok e)"
| "call P encodeByteSlice e v =
     orPanic (Value_IsNil v) e (\<lambda>isNil.
       if isNil then ok (WriteString e ''nil'')
       else orPanic (Value_Bytes v) e (\<lambda>s.
         let e1 = WriteByte (WriteString e ''#base64 '') (CHR 0x22);
             e2 = (if length s < 1024
                   then Buffer_Write e1 (take (EncodedLen (length s)) (StdEncoding_Encode s))
                   else foldl Buffer_Write (foldl Buffer_Write e1 (fst (encoder_Write s)))
                          (encoder_Close (snd (encoder_Write s))))
         in ok (WriteByte e2 (CHR 0x22))))"
| "call P encodeUuid e v =
     orPanic (Value_Bytes v) (WriteString e ''#uuid '') (\<lambda>b.
       ok (fst (encodeState_string P (WriteString e ''#uuid '') (UUID_String b))))"
| "call P (sliceEncoder arrayEnc) e v =
     orPanic (Value_IsNil v) e (\<lambda>isNil.
       if isNil then ok (WriteString e ''[]'') else call P arrayEnc e v)"
| "call P (arrayEncoder elemEnc) e v =
     orPanic (Value_Len v) (WriteByte e (CHR ''['')) (\<lambda>n.
       andThen (arrayEncoder_loop P elemEnc (WriteByte e (CHR ''['')) v 0 n)
         (\<lambda>e'. ok (WriteByte e' (CHR '']''))))"
| "arrayEncoder_loop P elemEnc e v i n =
     (if i < n then
        let e1 = (if 0 < i then WriteByte e (CHR '' '') else e) in
        orPanic (Value_Index v i) e1 (\<lambda>x.
          andThen (call P elemEnc e1 x) (\<lambda>e2. arrayEncoder_loop P elemEnc e2 v (i + 1) n))
      else ok e)"
| "call P (ptrEncoder elemEnc) e v =
     orPanic (Value_IsNil v) e (\<lambda>isNil.
       if isNil then ok (WriteString e ''nil'')
       else orPanic (Value_Elem v) e (\<lambda>v'. call P elemEnc e v'))"
| "call P (condAddrEncoder canAddrEnc elseEnc) e v =
     (if CanAddr v then call P canAddrEnc e v else call P elseEnc e v)"
| "call P listEncoder e v =
     orPanic (Value_Interface_List v) e (\<lambda>l.
       andThen (listEncoder_loop P (WriteByte e (CHR ''('')) l 0)
         (\<lambda>e'. ok (WriteByte e' (CHR '')''))))"
| "listEncoder_loop P e [] i = ok e"
| "listEncoder_loop P e (node # l) i =
     andThen (reflectValue P (if 0 < i then WriteByte e (CHR '' '') else e) (ValueOf node))
       (\<lambda>e'. listEncoder_loop P e' l (i + 1))"
  by pat_completeness auto
termination
proof (relation "inv_image (less_than <*lex*> less_than <*lex*> less_than)
    (\<lambda>x. case x of
       Inl (Inl (P, enc, e, v)) \<Rightarrow> (vsize v, 1, size enc)
     | Inl (Inr (P, e, v)) \<Rightarrow> (vsize v, 2, 0)
     | Inr (Inl (P, elemEnc, e, v, i, n)) \<Rightarrow> (vsize v, 0, n - i)
     | Inr (Inr (Inl (P, keyEnc, elemEnc, isSet, sep, e, v, i))) \<Rightarrow> (vsize v, 0, nkeys v - i)
     | Inr (Inr (Inr (P, e, l, i))) \<Rightarrow> (size (DList l), 0, 0))", goal_cases)
  case 1
  show ?case by (intro wf_inv_image wf_lex_prod wf_less_than)
qed (auto simp: vsize_Elem vsize_Index vsize_MapKeys vsize_MapIndex vsize_ValueOf
       vsize_Interface_List nkeys_def)


declare call.simps [simp del] reflectValue.simps [simp del] arrayEncoder_loop.simps [simp del]
  mapEncoder_loop.simps [simp del] listEncoder_loop.simps [simp del]

section \<open>Marshal\<close>

text \<open>
  \<^verbatim>\<open>e.marshal(v)\<close> runs the encoder of \<open>v\<close> and recovers a panic that carries an
  \<^verbatim>\<open>error\<close>, which it returns (\<open>Inr (Some err)\<close>); it panics again with a
  \<^verbatim>\<open>runtime.Error\<close> or a string (\<open>Inl\<close>).  The buffer holds what was written up to there.
\<close>

definition marshal :: "program \<Rightarrow> encodeState \<Rightarrow> interface \<Rightarrow> encodeState \<times> (fault + error option)" where
  "marshal P e v =
     (case reflectValue P e (ValueOf v) of
        (e', Some (PanicError err)) \<Rightarrow> (e', Inr (Some err))
      | (e', Some r) \<Rightarrow> (e', Inl r)
      | (e', None) \<Rightarrow> (e', Inr None))"

text \<open>What a call gives: it returns, or it panics.\<close>

datatype 'a outcome = Return 'a | Panic fault

text \<open>\<^verbatim>\<open>Marshal\<close> returns the bytes (a nil slice is \<open>None\<close>) and the error.\<close>

definition Marshal :: "program \<Rightarrow> interface \<Rightarrow> (string option \<times> error option) outcome" where
  "Marshal P v =
     (case marshal P \<lparr>Buffer = None\<rparr> v of
        (e, Inl r) \<Rightarrow> Panic r
      | (e, Inr (Some err)) \<Rightarrow> Return (None, Some err)
      | (e, Inr None) \<Rightarrow> Return (Bytes e, None))"

section \<open>Encoder\<close>

text \<open>
  \<^verbatim>\<open>encodeStatePool\<close> is a channel of capacity 8 used as a free list: \<^verbatim>\<open>newEncodeState\<close>
  takes the first state of the pool and resets it, or makes a new one; \<^verbatim>\<open>putEncodeState\<close>
  puts a state back unless the pool is full.
\<close>

type_synonym pool = "encodeState list"

definition newEncodeState :: "pool \<Rightarrow> encodeState \<times> pool" where
  "newEncodeState pool = (case pool of e # rest \<Rightarrow> (Reset e, rest) | [] \<Rightarrow> (\<lparr>Buffer = None\<rparr>, []))"

definition putEncodeState :: "pool \<Rightarrow> encodeState \<Rightarrow> pool" where
  "putEncodeState pool e = (if length pool < 8 then pool @ [e] else pool)"

text \<open>
  An \<^verbatim>\<open>Encoder\<close> holds its \<^verbatim>\<open>io.Writer\<close> and the error of a failed write.  The writer is a
  state \<open>'w\<close> and its method \<^verbatim>\<open>Write\<close>, which returns the new state, the number of bytes
  written and an error or nil.
\<close>

record 'w Encoder =
  enc_w :: 'w
  enc_err :: "error option"

type_synonym 'w Writer = "'w \<Rightarrow> string \<Rightarrow> 'w \<times> nat \<times> error option"

definition NewEncoder :: "'w \<Rightarrow> 'w Encoder" where
  "NewEncoder w = \<lparr>enc_w = w, enc_err = None\<rparr>"

definition Encode ::
  "program \<Rightarrow> 'w Writer \<Rightarrow> pool \<Rightarrow> 'w Encoder \<Rightarrow> interface \<Rightarrow> (pool \<times> 'w Encoder \<times> error option) outcome" where
  "Encode P Write pool enc v =
     (case enc_err enc of
        Some err \<Rightarrow> Return (pool, enc, Some err)
      | None \<Rightarrow>
          (case newEncodeState pool of (e, pool') \<Rightarrow>
             (case marshal P e v of
                (e', Inl r) \<Rightarrow> Panic r
              | (e', Inr (Some err)) \<Rightarrow> Return (pool', enc, Some err)
              | (e', Inr None) \<Rightarrow>
                  (case Write (enc_w enc) (contents (WriteByte e' (CHR 0x0A))) of
                     (w', n, err) \<Rightarrow>
                       Return (putEncodeState pool' (WriteByte e' (CHR 0x0A)),
                               (if err \<noteq> None then enc\<lparr>enc_w := w', enc_err := err\<rparr>
                                else enc\<lparr>enc_w := w'\<rparr>),
                               err)))))"

section \<open>Example programs, types and writers\<close>

text \<open>A program none of whose types has a method \<^verbatim>\<open>MarshalText\<close>.\<close>

definition plain :: program where
  "plain = \<lparr>MarshalText = (\<lambda>t. None), isPrintTable = (\<lambda>r. False)\<rparr>"

text \<open>The predeclared types \<^verbatim>\<open>float64\<close>, \<^verbatim>\<open>float32\<close>, \<^verbatim>\<open>int\<close> and \<^verbatim>\<open>uint8\<close> (\<^verbatim>\<open>byte\<close>).\<close>

definition float64Type :: gotype where
  "float64Type = Basic Float64 ''float64''"

definition float32Type :: gotype where
  "float32Type = Basic Float32 ''float32''"

definition intType :: gotype where
  "intType = Basic Int_Kind ''int''"

definition byteType :: gotype where
  "byteType = Basic Uint8 ''uint8''"

text \<open>
  Two writers: one whose every \<^verbatim>\<open>Write\<close> fails, and one that appends what it is given
  to the bytes it holds, as a \<^verbatim>\<open>bytes.Buffer\<close> does.
\<close>

definition failingWriter :: "'w Writer" where
  "failingWriter w p = (w, 0, Some (errorString ''write failed''))"

definition bufferWriter :: "string Writer" where
  "bufferWriter w p = (w @ p, length p, None)"

text \<open>
  A program with one type that has the method:
  \<^verbatim>\<open>type rawText string; func (r rawText) MarshalText() ([]byte, error) { return []byte(r), nil }\<close>
\<close>

definition rawTextType :: gotype where
  "rawTextType = Named ''main.rawText'' (Basic String ''string'')"

definition texts :: program where
  "texts = \<lparr>MarshalText = (\<lambda>t. if t = rawTextType
                 then Some (\<lambda>d. (case d of DString s \<Rightarrow> s | _ \<Rightarrow> [], None)) else None),
             isPrintTable = (\<lambda>r. False)\<rparr>"

section \<open>Lemmas\<close>

lemmas run_defs = orPanic_def andThen_def ok_def encodeState_error_def

lemmas buf_defs = WriteString_def WriteByte_def Buffer_Write_def contents_def Bytes_def

subsection \<open>Marshal of a value that is not nil\<close>

lemma Marshal_Some:
  "Marshal P (Some (t, d)) =
     (case call P (typeEncoder P t) \<lparr>Buffer = None\<rparr> (Val t False d) of
        (e, None) \<Rightarrow> Return (Bytes e, None)
      | (e, Some (PanicError err)) \<Rightarrow> Return (None, Some err)
      | (e, Some r) \<Rightarrow> Panic r)"
  by (simp add: Marshal_def marshal_def reflectValue.simps valueEncoder_def ValueOf_def IsValid_def
      split: prod.splits option.splits fault.splits)

subsection \<open>The encoders of some types\<close>

lemma typeEncoder_keywordType: "typeEncoder P keywordType = stringEncoder"
  by (simp add: typeEncoder.simps newTypeEncoder.simps keywordType_def timeType_def Implements_def)

lemma typeEncoder_float64Type: "typeEncoder P float64Type = float64Encoder"
  by (simp add: typeEncoder.simps newTypeEncoder.simps float64Type_def timeType_def Implements_def)

lemma typeEncoder_float32Type: "typeEncoder P float32Type = float32Encoder"
  by (simp add: typeEncoder.simps newTypeEncoder.simps float32Type_def timeType_def Implements_def)

lemma typeEncoder_intType: "typeEncoder P intType = intEncoder"
  by (simp add: typeEncoder.simps newTypeEncoder.simps intType_def timeType_def Implements_def)

lemma typeEncoder_slice_float64:
  "typeEncoder P (SliceOf float64Type) = sliceEncoder (arrayEncoder float64Encoder)"
  by (simp add: typeEncoder.simps newTypeEncoder.simps newSliceEncoder.simps newArrayEncoder.simps
      float64Type_def timeType_def Implements_def float64Encoder_def)

subsection \<open>The loop of arrayEncoder\<close>

lemma arrayEncoder_loop_done: "n \<le> i \<Longrightarrow> arrayEncoder_loop P elemEnc e v i n = (e, None)"
  by (simp add: arrayEncoder_loop.simps ok_def)

lemma arrayEncoder_loop_step:
  "i < n \<Longrightarrow> arrayEncoder_loop P elemEnc e v i n =
     orPanic (Value_Index v i) (if 0 < i then WriteByte e (CHR '' '') else e) (\<lambda>x.
       andThen (call P elemEnc (if 0 < i then WriteByte e (CHR '' '') else e) x)
         (\<lambda>e2. arrayEncoder_loop P elemEnc e2 v (Suc i) n))"
  by (subst arrayEncoder_loop.simps) (simp add: Let_def)

subsection \<open>Keywords\<close>

lemma call_stringEncoder_keyword:
  "call P stringEncoder e (Val keywordType a (DString s))
     = (WriteString e (if HasPrefix s '':'' then s else CHR '':'' # s), None)"
  by (auto simp: call.simps Value_String_def Value_Type_def run_defs buf_defs HasPrefix_def
      symbolType_def keywordType_def)

subsection \<open>Floats\<close>

lemma formatBits_digit: "u < 10 \<Longrightarrow> formatBits u = [lowerhex ! u]"
  by (simp add: formatBits.simps)

lemma FormatFloat_specials:
  "IsNaN f \<or> IsInf f 0 \<Longrightarrow>
     FormatFloat f 64 = Some (if IsNaN f then ''NaN'' else if IsInf f 1 then ''+Inf'' else ''-Inf'')"
  by (auto simp: FormatFloat_def AppendFloat_def genericFtoa_def float64info_def IsNaN_def IsInf_def)

lemma call_float64_special:
  "IsNaN f \<or> IsInf f 0 \<Longrightarrow>
     call P float64Encoder e (Val t a (DFloat64 f))
       = (e, Some (PanicError (UnsupportedValueError (Val t a (DFloat64 f))
                     (if IsNaN f then ''NaN'' else if IsInf f 1 then ''+Inf'' else ''-Inf''))))"
  using FormatFloat_specials [of f]
  by (auto simp: float64Encoder_def call.simps Value_Float_def run_defs)

lemma call_float64_finite:
  "\<not> IsNaN f \<Longrightarrow> \<not> IsInf f 0 \<Longrightarrow> AppendFloat [] f 64 = Some b \<Longrightarrow>
     call P float64Encoder e (Val t a (DFloat64 f)) = (Buffer_Write e b, None)"
  by (simp add: float64Encoder_def call.simps Value_Float_def run_defs)

text \<open>The \<^verbatim>\<open>float64\<close> 2.0 has the bits \<open>0x4000000000000000\<close>: it is \<open>2 ^ 52 * 2 ^ (1 - 52)\<close>.\<close>

lemma Assign_2p52:
  "Assign 4503599627370496 = \<lparr>dec_d = [4,5,0,3,5,9,9,6,2,7,3,7,0,4,9,6], dec_dp = 16\<rparr>"
  by (simp add: Assign_def trim_def digitsOf.simps)

lemma Shift_2p52:
  "Shift \<lparr>dec_d = [4,5,0,3,5,9,9,6,2,7,3,7,0,4,9,6], dec_dp = 16\<rparr> (- 51) = \<lparr>dec_d = [2], dec_dp = 1\<rparr>"
  by (simp add: Shift_def trim_def dec_nd_def digitsOf.simps numberOf_def)

lemma roundShortest_two:
  "roundShortest \<lparr>dec_d = [2], dec_dp = 1\<rparr> 4503599627370496 1 float64info = \<lparr>dec_d = [2], dec_dp = 1\<rparr>"
  by (simp add: roundShortest_def float64info_def dec_nd_def)

lemma formatDigits_two: "formatDigits [] True False \<lparr>dec_d = [2], dec_dp = 1\<rparr> 1 = ''2''"
  by (simp add: formatDigits_def fmtF_def dec_nd_def digitChars_def lowerhex_def)

lemma AppendFloat_two: "AppendFloat [] 0x4000000000000000 64 = Some ''2''"
proof -
  have "genericFtoa [] 0x4000000000000000 float64info
          = formatDigits [] True False
              (roundShortest (Shift (Assign 4503599627370496) (- 51)) 4503599627370496 1 float64info)
              (int (dec_nd (roundShortest (Shift (Assign 4503599627370496) (- 51)) 4503599627370496 1 float64info)))"
    by (simp add: genericFtoa_def float64info_def Let_def)
  then show ?thesis
    by (simp add: AppendFloat_def Assign_2p52 Shift_2p52 roundShortest_two formatDigits_two dec_nd_def)
qed

text \<open>
  Encoding \<^verbatim>\<open>[]float64{2, +Inf}\<close> panics at the second element, when \<^verbatim>\<open>[2\<close> and a space
  are in the buffer.
\<close>

lemma marshal_partial:
  "marshal P \<lparr>Buffer = None\<rparr>
     (Some (SliceOf float64Type, DSlice (Some [DFloat64 0x4000000000000000, DFloat64 0x7FF0000000000000])))
   = (\<lparr>Buffer = Some ''[2 ''\<rparr>,
      Inr (Some (UnsupportedValueError (Val float64Type True (DFloat64 0x7FF0000000000000)) ''+Inf'')))"
proof -
  have inf: "IsInf (0x7FF0000000000000 :: float64) 0" "\<not> IsNaN (0x7FF0000000000000 :: float64)"
    and fin: "\<not> IsNaN (0x4000000000000000 :: float64)" "\<not> IsInf (0x4000000000000000 :: float64) 0"
    by (simp_all add: IsInf_def IsNaN_def)
  have pos: "IsInf (0x7FF0000000000000 :: float64) 1"
    by (simp add: IsInf_def)
  show ?thesis
    using inf pos
    by (simp add: marshal_def reflectValue.simps valueEncoder_def ValueOf_def IsValid_def
        typeEncoder_slice_float64 call.simps arrayEncoder_loop_step arrayEncoder_loop_done
        Value_IsNil_def Value_Len_def Value_Index_def run_defs buf_defs
        call_float64_finite [OF fin AppendFloat_two] call_float64_special)
qed

subsection \<open>marshal of some values\<close>

lemma marshal_Some:
  "marshal P e (Some (t, d)) =
     (case call P (typeEncoder P t) e (Val t False d) of
        (e', Some (PanicError err)) \<Rightarrow> (e', Inr (Some err))
      | (e', Some r) \<Rightarrow> (e', Inl r)
      | (e', None) \<Rightarrow> (e', Inr None))"
  by (simp add: marshal_def reflectValue.simps valueEncoder_def ValueOf_def IsValid_def)

lemma marshal_nil: "marshal P e None = (WriteString e ''nil'', Inr None)"
  by (simp add: marshal_def reflectValue.simps valueEncoder_def ValueOf_def IsValid_def call.simps ok_def)

lemma marshal_int_two: "marshal P e (Some (intType, DInt 2)) = (Buffer_Write e ''2'', Inr None)"
  by (simp add: marshal_Some typeEncoder_intType call.simps Value_Int_def run_defs AppendInt_def
      formatBits_digit lowerhex_def)

lemma marshal_NaN:
  "marshal P e (Some (float64Type, DFloat64 0x7FF8000000000000))
     = (e, Inr (Some (UnsupportedValueError (Val float64Type False (DFloat64 0x7FF8000000000000)) ''NaN'')))"
proof -
  have nan: "IsNaN (0x7FF8000000000000 :: float64)"
    by (simp add: IsNaN_def)
  then show ?thesis
    by (simp add: marshal_Some typeEncoder_float64Type call_float64_special)
qed

subsection \<open>The encoder of a type without the method MarshalText\<close>

lemma Type_Kind_timeType: "Type_Kind timeType = Struct"
  by (simp add: timeType_def)

lemma call_unaddressable:
  "call P (typeEncoder P t) e (Val t False d) = call P (newTypeEncoder P t False) e (Val t False d)"
  by (simp add: typeEncoder.simps newTypeEncoder.simps [of P t True] newTypeEncoder.simps [of P t False]
      newCondAddrEncoder_def call.simps CanAddr_def)

lemma typeEncoder_no_methods:
  assumes "\<not> Implements P t textMarshalerType" and "\<not> Implements P (PtrTo t) textMarshalerType"
  shows "typeEncoder P t = newTypeEncoder P t False"
  using assms
  by (simp add: typeEncoder.simps newTypeEncoder.simps [of P t True] newTypeEncoder.simps [of P t False])

lemma newTypeEncoder_Slice:
  "Type_Kind t = Slice \<Longrightarrow> \<not> Implements P t textMarshalerType \<Longrightarrow>
     newTypeEncoder P t False = newSliceEncoder P t"
  using Type_Kind_timeType by (auto simp: newTypeEncoder.simps)

lemma newTypeEncoder_Array:
  "Type_Kind t = Array \<Longrightarrow> \<not> Implements P t textMarshalerType \<Longrightarrow>
     newTypeEncoder P t False = newArrayEncoder P t"
  using Type_Kind_timeType by (auto simp: newTypeEncoder.simps)

lemma newTypeEncoder_Map:
  "Type_Kind t = Map \<Longrightarrow> \<not> Implements P t textMarshalerType \<Longrightarrow>
     newTypeEncoder P t False = newMapEncoder P t"
  using Type_Kind_timeType by (auto simp: newTypeEncoder.simps)

lemma not_Implements_unnamed [simp]:
  "\<not> Implements P (SliceOf t) u" "\<not> Implements P (PtrTo (SliceOf t)) u"
  "\<not> Implements P (ArrayOf n t) u" "\<not> Implements P (PtrTo (ArrayOf n t)) u"
  "\<not> Implements P (MapOf k t) u" "\<not> Implements P (PtrTo (MapOf k t)) u"
  by (simp_all add: Implements_def)

lemma not_Implements_own [simp]:
  "\<not> Implements P setType u" "\<not> Implements P (PtrTo setType) u"
  "\<not> Implements P keywordType u" "\<not> Implements P (PtrTo keywordType) u"
  "\<not> Implements P symbolType u" "\<not> Implements P (PtrTo symbolType) u"
  by (simp_all add: Implements_def setType_def keywordType_def symbolType_def)

lemma typeEncoder_byteType: "typeEncoder P byteType = uintEncoder"
  by (simp add: typeEncoder.simps newTypeEncoder.simps byteType_def timeType_def Implements_def)

subsection \<open>Quoting\<close>

lemma Quote_not_empty: "Quote tab s \<noteq> []"
  by (simp add: Quote_def appendQuotedWith_def)

lemma Implements_texts: "Implements texts rawTextType textMarshalerType"
  by (simp add: Implements_def texts_def rawTextType_def)

lemma Quote_a_quote_b:
  "Quote tab (''a'' @ [CHR 0x22] @ ''b'') = [CHR 0x22] @ ''a'' @ [CHR 0x5C, CHR 0x22] @ ''b'' @ [CHR 0x22]"
  by (simp add: Quote_def appendQuotedWith_def appendEscapedRune_def IsPrint_def RuneError_def)

subsection \<open>The loop of mapEncoder\<close>

lemma mapEncoder_loop_empty:
  "mapEncoder_loop P keyEnc elemEnc isSet sep e (Val t a (DMap (Some []))) i = (e, None)"
  by (subst mapEncoder_loop.simps) (simp add: MapKeys_def run_defs)


subsection \<open>Base64 and the byte slice encoder\<close>

lemma length_StdEncoding_Encode: "length (StdEncoding_Encode s) = EncodedLen (length s)"
  by (induction s rule: StdEncoding_Encode.induct) (simp_all add: EncodedLen_def Let_def, arith)

lemma StdEncoding_Encode_append:
  "length xs mod 3 = 0 \<Longrightarrow> StdEncoding_Encode (xs @ ys) = StdEncoding_Encode xs @ StdEncoding_Encode ys"
  by (induction xs rule: StdEncoding_Encode.induct) (simp_all add: Let_def)

lemma encodeStd_nth: "i < 64 \<Longrightarrow> encodeStd ! i \<in> set encodeStd"
  by (rule nth_mem) (simp add: encodeStd_def)

lemma set_StdEncoding_Encode: "set (StdEncoding_Encode s) \<subseteq> set encodeStd \<union> {CHR ''=''}"
  by (induction s rule: StdEncoding_Encode.induct) (auto simp: Let_def encodeStd_nth)

lemma encoder_stream:
  "concat (fst (encoder_Write p)) @ concat (encoder_Close (snd (encoder_Write p))) = StdEncoding_Encode p"
proof (induction p rule: encoder_Write.induct)
  case (1 p)
  show ?case
  proof (cases "3 \<le> length p")
    case True
    define nn where "nn = (if length p < 768 then length p - length p mod 3 else 768)"
    have nn: "nn \<le> length p" "nn mod 3 = 0"
      using True by (auto simp: nn_def mod_simps)
    have ih: "concat (fst (encoder_Write (drop nn p))) @ concat (encoder_Close (snd (encoder_Write (drop nn p))))
                = StdEncoding_Encode (drop nn p)"
      using "1.IH" [OF True nn_def] .
    have "StdEncoding_Encode (take nn p @ drop nn p)
            = StdEncoding_Encode (take nn p) @ StdEncoding_Encode (drop nn p)"
      using nn by (intro StdEncoding_Encode_append) simp
    then show ?thesis
      using True ih
      by (subst (1 2) encoder_Write.simps) (simp add: Let_def nn_def [symmetric])
  next
    case False
    then show ?thesis
      by (subst (1 2) encoder_Write.simps)
        (simp add: encoder_Close_def length_StdEncoding_Encode)
  qed
qed

lemma Buffer_Write_Buffer_Write: "Buffer_Write (Buffer_Write e a) b = Buffer_Write e (a @ b)"
  by (simp add: buf_defs)

lemma foldl_Buffer_Write: "foldl Buffer_Write e blocks = Buffer_Write e (concat blocks)"
proof (induction blocks arbitrary: e)
  case Nil
  show ?case by (simp add: Buffer_Write_def)
next
  case (Cons a blocks)
  then show ?case by (simp add: Buffer_Write_Buffer_Write)
qed

lemma typeEncoder_byte_slice: "typeEncoder P (SliceOf byteType) = encodeByteSlice"
  by (simp add: typeEncoder_no_methods newTypeEncoder_Slice newSliceEncoder.simps byteType_def uuidType_def)

lemma call_encodeByteSlice:
  "call P encodeByteSlice e (Val (SliceOf byteType) a (DSlice (Some (map DUint bs))))
     = (WriteByte (Buffer_Write (WriteByte (WriteString e ''#base64 '') (CHR 0x22))
          (StdEncoding_Encode (map (\<lambda>u. unat u mod 256) bs))) (CHR 0x22), None)"
proof -
  have b: "Value_Bytes (Val (SliceOf byteType) a (DSlice (Some (map DUint bs))))
             = Inr (map (\<lambda>u. unat u mod 256) bs)"
    by (simp add: Value_Bytes_def byteType_def comp_def)
  have n: "Value_IsNil (Val (SliceOf byteType) a (DSlice (Some (map DUint bs)))) = Inr False"
    by (simp add: Value_IsNil_def)
  show ?thesis
    by (simp add: call.simps b n run_defs Let_def length_StdEncoding_Encode foldl_Buffer_Write
        Buffer_Write_Buffer_Write encoder_stream)
qed

subsection \<open>NaN and the infinities\<close>

text \<open>
  The bit pattern of a float splits into sign, exponent and fraction; an exponent of all
  ones is a NaN (fraction not zero) or an infinity (fraction zero).
\<close>

lemma split_fields:
  fixes a k b :: nat
  assumes "k < b"
  shows "(a * b + k) div b = a" and "(a * b + k) mod b = k"
  using assms by simp_all

lemma fields32:
  fixes s k :: nat
  assumes "s < 2" "k < 2 ^ 23"
  shows "(s * 2 ^ 31 + (255 * 2 ^ 23 + k)) div 2 ^ 23 mod 2 ^ 8 = 255"
    and "(s * 2 ^ 31 + (255 * 2 ^ 23 + k)) mod 2 ^ 23 = k"
    and "(s * 2 ^ 31 + (255 * 2 ^ 23 + k)) div 2 ^ 31 = s"
    and "s * 2 ^ 31 + (255 * 2 ^ 23 + k) < 2 ^ 32"
proof -
  from assms(1) consider "s = 0" | "s = 1" by linarith
  then have "(s * 2 ^ 31 + (255 * 2 ^ 23 + k)) div 2 ^ 23 mod 2 ^ 8 = 255
     \<and> (s * 2 ^ 31 + (255 * 2 ^ 23 + k)) mod 2 ^ 23 = k
     \<and> (s * 2 ^ 31 + (255 * 2 ^ 23 + k)) div 2 ^ 31 = s
     \<and> s * 2 ^ 31 + (255 * 2 ^ 23 + k) < 2 ^ 32"
  proof cases
    case 1
    show ?thesis
      using assms(2) split_fields [of k "2 ^ 23" 255] split_fields [of "255 * 2 ^ 23 + k" "2 ^ 31" 0]
      by (simp add: 1)
  next
    case 2
    show ?thesis
      using assms(2) split_fields [of k "2 ^ 23" 511] split_fields [of "255 * 2 ^ 23 + k" "2 ^ 31" 1]
      by (simp add: 2)
  qed
  then show "(s * 2 ^ 31 + (255 * 2 ^ 23 + k)) div 2 ^ 23 mod 2 ^ 8 = 255"
    and "(s * 2 ^ 31 + (255 * 2 ^ 23 + k)) mod 2 ^ 23 = k"
    and "(s * 2 ^ 31 + (255 * 2 ^ 23 + k)) div 2 ^ 31 = s"
    and "s * 2 ^ 31 + (255 * 2 ^ 23 + k) < 2 ^ 32"
    by simp_all
qed

lemma fields64:
  fixes s k :: nat
  assumes "s < 2" "k < 2 ^ 52"
  shows "(s * 2 ^ 63 + (2047 * 2 ^ 52 + k)) div 2 ^ 52 mod 2 ^ 11 = 2047"
    and "(s * 2 ^ 63 + (2047 * 2 ^ 52 + k)) mod 2 ^ 52 = k"
    and "(s * 2 ^ 63 + (2047 * 2 ^ 52 + k)) div 2 ^ 63 = s"
    and "s * 2 ^ 63 + (2047 * 2 ^ 52 + k) < 2 ^ 64"
proof -
  from assms(1) consider "s = 0" | "s = 1" by linarith
  then have "(s * 2 ^ 63 + (2047 * 2 ^ 52 + k)) div 2 ^ 52 mod 2 ^ 11 = 2047
     \<and> (s * 2 ^ 63 + (2047 * 2 ^ 52 + k)) mod 2 ^ 52 = k
     \<and> (s * 2 ^ 63 + (2047 * 2 ^ 52 + k)) div 2 ^ 63 = s
     \<and> s * 2 ^ 63 + (2047 * 2 ^ 52 + k) < 2 ^ 64"
  proof cases
    case 1
    show ?thesis
      using assms(2) split_fields [of k "2 ^ 52" 2047] split_fields [of "2047 * 2 ^ 52 + k" "2 ^ 63" 0]
      by (simp add: 1)
  next
    case 2
    show ?thesis
      using assms(2) split_fields [of k "2 ^ 52" 4095] split_fields [of "2047 * 2 ^ 52 + k" "2 ^ 63" 1]
      by (simp add: 2)
  qed
  then show "(s * 2 ^ 63 + (2047 * 2 ^ 52 + k)) div 2 ^ 52 mod 2 ^ 11 = 2047"
    and "(s * 2 ^ 63 + (2047 * 2 ^ 52 + k)) mod 2 ^ 52 = k"
    and "(s * 2 ^ 63 + (2047 * 2 ^ 52 + k)) div 2 ^ 63 = s"
    and "s * 2 ^ 63 + (2047 * 2 ^ 52 + k) < 2 ^ 64"
    by simp_all
qed


lemma unat_word_of_nat_less: "n < 2 ^ LENGTH('a) \<Longrightarrow> unat (word_of_nat n :: 'a :: len word) = n"
  by (simp add: unat_of_nat)

lemma sign_bit64: "unat (f :: float64) div 2 ^ 63 < 2"
  using unsigned_less [of f, where 'a = nat] by (simp add: less_mult_imp_div_less)

lemma sign_bit32: "unat (x :: float32) div 2 ^ 31 < 2"
  using unsigned_less [of x, where 'a = nat] by (simp add: less_mult_imp_div_less)

lemma genericFtoa32_special:
  fixes s k :: nat
  assumes "s < 2" "k < 2 ^ 23"
  shows "genericFtoa dst (s * 2 ^ 31 + (255 * 2 ^ 23 + k)) float32info
           = dst @ (if k \<noteq> 0 then ''NaN'' else if s \<noteq> 0 then ''-Inf'' else ''+Inf'')"
  using fields32 [OF assms]
  by (simp add: genericFtoa_def float32info_def)

lemma float32_of_float64_special:
  assumes "unat f div 2 ^ 52 mod 2 ^ 11 = 2047"
  shows "unat (float32_of_float64 f)
           = unat f div 2 ^ 63 * 2 ^ 31 +
               (255 * 2 ^ 23 + (if unat f mod 2 ^ 52 = 0 then 0 else 2 ^ 22 + unat f mod 2 ^ 52 div 2 ^ 29 mod 2 ^ 22))"
proof -
  define k :: nat where "k = (if unat f mod 2 ^ 52 = 0 then 0 else 2 ^ 22 + unat f mod 2 ^ 52 div 2 ^ 29 mod 2 ^ 22)"
  have "unat f mod 2 ^ 52 div 2 ^ 29 mod 2 ^ 22 < (2 :: nat) ^ 22"
    by (rule mod_less_divisor) simp
  then have k: "k < 2 ^ 23"
    by (simp add: k_def)
  have "float32_of_float64 f = word_of_nat (unat f div 2 ^ 63 * 2 ^ 31 + (255 * 2 ^ 23 + k))"
    using assms by (simp add: float32_of_float64_def k_def Let_def)
  moreover have "unat (word_of_nat (unat f div 2 ^ 63 * 2 ^ 31 + (255 * 2 ^ 23 + k)) :: float32)
                   = unat f div 2 ^ 63 * 2 ^ 31 + (255 * 2 ^ 23 + k)"
    by (rule unat_word_of_nat_less) (use fields32(4) [OF sign_bit64 [of f] k] in simp)
  ultimately show ?thesis
    by (simp add: k_def)
qed

lemma FormatFloat32_NaN:
  assumes "IsNaN f"
  shows "FormatFloat f 32 = Some ''NaN''"
proof -
  have e: "unat f div 2 ^ 52 mod 2 ^ 11 = 2047" and m: "unat f mod 2 ^ 52 \<noteq> 0"
    using assms by (simp_all add: IsNaN_def)
  define k :: nat where "k = 2 ^ 22 + unat f mod 2 ^ 52 div 2 ^ 29 mod 2 ^ 22"
  have "unat f mod 2 ^ 52 div 2 ^ 29 mod 2 ^ 22 < (2 :: nat) ^ 22"
    by (rule mod_less_divisor) simp
  then have k: "k < 2 ^ 23" "k \<noteq> 0"
    by (simp_all add: k_def)
  have "unat (float32_of_float64 f) = unat f div 2 ^ 63 * 2 ^ 31 + (255 * 2 ^ 23 + k)"
    using float32_of_float64_special [OF e] m by (simp add: k_def)
  then show ?thesis
    using genericFtoa32_special [OF sign_bit64 [of f] k(1), of "[]"] k(2)
    by (simp add: FormatFloat_def AppendFloat_def)
qed

lemma FormatFloat32_Inf:
  assumes "IsInf f 0"
  shows "FormatFloat f 32 = Some (if IsInf f 1 then ''+Inf'' else ''-Inf'')" and "\<not> IsNaN f"
proof -
  from assms consider "unat f = 0x7FF0000000000000" | "unat f = 0xFFF0000000000000"
    by (auto simp: IsInf_def)
  then have "FormatFloat f 32 = Some (if IsInf f 1 then ''+Inf'' else ''-Inf'') \<and> \<not> IsNaN f"
  proof cases
    case 1
    then show ?thesis
      by (simp add: FormatFloat_def AppendFloat_def float32_of_float64_def genericFtoa_def
          float32info_def IsInf_def IsNaN_def)
  next
    case 2
    then show ?thesis
      by (simp add: FormatFloat_def AppendFloat_def float32_of_float64_def genericFtoa_def
          float32info_def IsInf_def IsNaN_def)
  qed
  then show "FormatFloat f 32 = Some (if IsInf f 1 then ''+Inf'' else ''-Inf'')" and "\<not> IsNaN f"
    by simp_all
qed

lemma FormatFloat32_specials:
  "IsNaN f \<or> IsInf f 0 \<Longrightarrow>
     FormatFloat f 32 = Some (if IsNaN f then ''NaN'' else if IsInf f 1 then ''+Inf'' else ''-Inf'')"
  using FormatFloat32_NaN [of f] FormatFloat32_Inf [of f] by auto

lemma float64_of_float32_special:
  assumes "unat x div 2 ^ 23 mod 2 ^ 8 = 255"
  shows "IsNaN (float64_of_float32 x) \<longleftrightarrow> unat x mod 2 ^ 23 \<noteq> 0"
    and "IsInf (float64_of_float32 x) 0 \<longleftrightarrow> unat x mod 2 ^ 23 = 0"
    and "IsInf (float64_of_float32 x) 1 \<longleftrightarrow> unat x mod 2 ^ 23 = 0 \<and> unat x div 2 ^ 31 = 0"
proof -
  define s where "s = unat x div 2 ^ 31"
  define k :: nat where "k = (if unat x mod 2 ^ 23 = 0 then 0 else 2 ^ 51 + (unat x mod 2 ^ 23 mod 2 ^ 22) * 2 ^ 29)"
  have s: "s < 2"
    unfolding s_def by (rule sign_bit32)
  have "unat x mod 2 ^ 23 mod 2 ^ 22 < (2 :: nat) ^ 22"
    by (rule mod_less_divisor) simp
  then have "(unat x mod 2 ^ 23 mod 2 ^ 22) * 2 ^ 29 < (2 :: nat) ^ 22 * 2 ^ 29"
    by (rule mult_strict_right_mono) simp
  then have k: "k < 2 ^ 52"
    by (simp add: k_def)
  have k0: "k = 0 \<longleftrightarrow> unat x mod 2 ^ 23 = 0"
    by (simp add: k_def)
  have "float64_of_float32 x = word_of_nat (s * 2 ^ 63 + (2047 * 2 ^ 52 + k))"
    using assms by (simp add: float64_of_float32_def k_def s_def Let_def)
  moreover have "unat (word_of_nat (s * 2 ^ 63 + (2047 * 2 ^ 52 + k)) :: float64)
                   = s * 2 ^ 63 + (2047 * 2 ^ 52 + k)"
    by (rule unat_word_of_nat_less) (use fields64(4) [OF s k] in simp)
  ultimately have u: "unat (float64_of_float32 x) = s * 2 ^ 63 + (2047 * 2 ^ 52 + k)"
    by simp
  show "IsNaN (float64_of_float32 x) \<longleftrightarrow> unat x mod 2 ^ 23 \<noteq> 0"
    unfolding IsNaN_def u using fields64(1,2) [OF s k] k0 by simp
  from s consider "s = 0" | "s = 1" by linarith
  then have "(IsInf (float64_of_float32 x) 0 \<longleftrightarrow> unat x mod 2 ^ 23 = 0)
     \<and> (IsInf (float64_of_float32 x) 1 \<longleftrightarrow> unat x mod 2 ^ 23 = 0 \<and> s = 0)"
  proof cases
    case 1
    then show ?thesis using k k0 by (auto simp: IsInf_def u)
  next
    case 2
    then show ?thesis using k k0 by (auto simp: IsInf_def u)
  qed
  then show "IsInf (float64_of_float32 x) 0 \<longleftrightarrow> unat x mod 2 ^ 23 = 0"
    and "IsInf (float64_of_float32 x) 1 \<longleftrightarrow> unat x mod 2 ^ 23 = 0 \<and> unat x div 2 ^ 31 = 0"
    by (simp_all add: s_def)
qed

lemma call_floatEncoder_special:
  assumes "Value_Float v = Inr f" "IsNaN f \<or> IsInf f 0" "FormatFloat f bits = Some str"
  shows "call P (floatEncoder bits) e v = (e, Some (PanicError (UnsupportedValueError v str)))"
  using assms by (auto simp: call.simps run_defs)

subsection \<open>The encoder of time.Time\<close>

lemma call_timeEncoder:
  "call P timeEncoder e (Val timeType a (DTime tm))
     = (WriteString (WriteString e ''#inst '') (Quote (isPrintTable P) (Format_RFC3339Nano tm)), None)"
  by (simp add: call.simps Value_Interface_Time_def encodeState_string_def run_defs Let_def)

lemma typeEncoder_timeType: "typeEncoder P timeType = timeEncoder"
  by (simp add: typeEncoder.simps newTypeEncoder.simps)

lemma typeEncoder_ptr_timeType: "typeEncoder P (PtrTo timeType) = ptrEncoder timeEncoder"
  by (simp add: typeEncoder.simps newTypeEncoder.simps newPtrEncoder.simps timeType_def)
section \<open>The claims\<close>

text \<open>
  C2.  Whenever \<^verbatim>\<open>Marshal\<close> fails with an error, it returns no bytes: the slice it returns is
  nil, whatever the encoders had written to the buffer before the failure.
\<close>

theorem Marshal_error_no_bytes:
  "Marshal P v = Return (b, Some err) \<Longrightarrow> b = None"
  by (auto simp: Marshal_def split: prod.splits sum.splits option.splits)

text \<open>
  At \<^verbatim>\<open>[]float64{2, +Inf}\<close> the buffer holds \<^verbatim>\<open>[2\<close> and a space when the encoder fails, and
  \<^verbatim>\<open>Marshal\<close> returns nil and the error.
\<close>

theorem Marshal_error_no_bytes_witness:
  "Marshal plain
     (Some (SliceOf float64Type, DSlice (Some [DFloat64 0x4000000000000000, DFloat64 0x7FF0000000000000])))
     = Return (None, Some (UnsupportedValueError (Val float64Type True (DFloat64 0x7FF0000000000000)) ''+Inf''))
   \<and> Buffer (fst (marshal plain \<lparr>Buffer = None\<rparr>
         (Some (SliceOf float64Type, DSlice (Some [DFloat64 0x4000000000000000, DFloat64 0x7FF0000000000000])))))
     = Some ''[2 ''"
proof -
  let ?v = "Some (SliceOf float64Type, DSlice (Some [DFloat64 0x4000000000000000, DFloat64 0x7FF0000000000000]))"
  let ?err = "UnsupportedValueError (Val float64Type True (DFloat64 0x7FF0000000000000)) ''+Inf''"
  obtain b where h: "Marshal plain ?v = Return (b, Some ?err)"
    by (simp add: Marshal_def marshal_partial)
  from Marshal_error_no_bytes [OF h] h show ?thesis
    by (simp add: marshal_partial)
qed

text \<open>
  C5.  Encoding a \<^verbatim>\<open>Keyword\<close> adds the colon once: a name that does not start with a colon
  is written after one colon, a name that starts with a colon is written as it is.
\<close>

theorem keyword_prefix_once:
  "Marshal P (Some (keywordType, DString s))
     = Return (Some (if HasPrefix s '':'' then s else CHR '':'' # s), None)"
  by (auto simp: Marshal_Some typeEncoder_keywordType call_stringEncoder_keyword buf_defs HasPrefix_def)

text \<open>
  C10.  The encodings of floats and of integers are not disjoint: the \<^verbatim>\<open>float64\<close> 2.0 is
  written as the digit \<^verbatim>\<open>2\<close>, with no decimal point and no exponent, the same bytes as the
  \<^verbatim>\<open>int\<close> 2.
\<close>

theorem float_two_is_integer_literal:
  "Marshal P (Some (float64Type, DFloat64 0x4000000000000000)) = Return (Some ''2'', None)
   \<and> Marshal P (Some (intType, DInt 2)) = Return (Some ''2'', None)"
  by (simp add: Marshal_Some typeEncoder_float64Type typeEncoder_intType float64Encoder_def
      call.simps Value_Float_def Value_Int_def run_defs buf_defs IsInf_def IsNaN_def AppendFloat_two
      AppendInt_def formatBits_digit lowerhex_def)

text \<open>
  C8.  When a call of \<^verbatim>\<open>Encode\<close> on an \<^verbatim>\<open>Encoder\<close> without a stored error marshals its
  value and the write to the sink fails with \<open>err\<close>, the call returns \<open>err\<close> and stores it
  in the \<^verbatim>\<open>Encoder\<close>; every later call on that \<^verbatim>\<open>Encoder\<close> then returns \<open>err\<close> at once:
  whatever the value \<open>v2\<close>, the pool \<open>pool2\<close> and the writer \<open>W2\<close>, nothing is marshalled
  (the pool is as it was) and nothing is written (the sink is as it was), and the
  \<^verbatim>\<open>Encoder\<close> is unchanged, so that the same holds of the call after it.
\<close>

theorem Encode_after_sink_failure:
  assumes "enc_err enc = None"
    and "newEncodeState pool = (e, pool1)"
    and "marshal P e v = (e', Inr None)"
    and "W (enc_w enc) (contents (WriteByte e' (CHR 0x0A))) = (w', n, Some err)"
  shows "Encode P W pool enc v
           = Return (putEncodeState pool1 (WriteByte e' (CHR 0x0A)),
                     enc\<lparr>enc_w := w', enc_err := Some err\<rparr>, Some err)
     \<and> Encode P W2 pool2 (enc\<lparr>enc_w := w', enc_err := Some err\<rparr>) v2
           = Return (pool2, enc\<lparr>enc_w := w', enc_err := Some err\<rparr>, Some err)"
  using assms by (simp add: Encode_def)

text \<open>
  With a writer that always fails: the first call stores the error of the write; the
  second, given a writer that would accept the bytes, returns the stored error and leaves
  the sink empty and everything else as it was.
\<close>

theorem Encode_after_sink_failure_witness:
  "Encode plain failingWriter [] (NewEncoder ([] :: string)) None
     = Return ([\<lparr>Buffer = Some (''nil'' @ [CHR 0x0A])\<rparr>],
               \<lparr>enc_w = [], enc_err = Some (errorString ''write failed'')\<rparr>,
               Some (errorString ''write failed''))
   \<and> Encode plain bufferWriter [\<lparr>Buffer = Some (''nil'' @ [CHR 0x0A])\<rparr>]
         \<lparr>enc_w = [], enc_err = Some (errorString ''write failed'')\<rparr> (Some (intType, DInt 2))
     = Return ([\<lparr>Buffer = Some (''nil'' @ [CHR 0x0A])\<rparr>],
               \<lparr>enc_w = [], enc_err = Some (errorString ''write failed'')\<rparr>,
               Some (errorString ''write failed''))"
proof -
  have unset: "enc_err (NewEncoder ([] :: string)) = None"
    by (simp add: NewEncoder_def)
  have new: "newEncodeState [] = (\<lparr>Buffer = None\<rparr>, [])"
    by (simp add: newEncodeState_def)
  have w: "failingWriter (enc_w (NewEncoder ([] :: string))) (contents (WriteByte (WriteString \<lparr>Buffer = None\<rparr> ''nil'') (CHR 0x0A)))
             = ([], 0, Some (errorString ''write failed''))"
    by (simp add: failingWriter_def NewEncoder_def)
  from Encode_after_sink_failure [where P = plain and W = failingWriter and v = None
      and ?W2.0 = bufferWriter and ?pool2.0 = "[\<lparr>Buffer = Some (''nil'' @ [CHR 0x0A])\<rparr>]"
      and ?v2.0 = "Some (intType, DInt 2)", OF unset new marshal_nil w]
  show ?thesis
    by (simp add: putEncodeState_def NewEncoder_def buf_defs)
qed

text \<open>
  C9.  A failure to marshal the value does not poison the \<^verbatim>\<open>Encoder\<close>: \<^verbatim>\<open>Encode\<close> returns
  the error, the encoder is unchanged (the sink has been given nothing, not even the
  newline, and no error is stored), and a later \<^verbatim>\<open>Encode\<close> of a value that marshals, on a
  sink that takes the write, succeeds.
\<close>

theorem Encode_value_failure_not_stored:
  assumes "enc_err enc = None"
    and "newEncodeState pool = (e, pool')"
    and "marshal P e v = (e', Inr (Some err))"
  shows "Encode P W pool enc v = Return (pool', enc, Some err)
     \<and> (newEncodeState pool' = (e2, pool'') \<and> marshal P e2 v2 = (e2', Inr None)
          \<and> W (enc_w enc) (contents (WriteByte e2' (CHR 0x0A))) = (w', n, None)
        \<longrightarrow> Encode P W pool' enc v2
              = Return (putEncodeState pool'' (WriteByte e2' (CHR 0x0A)), enc\<lparr>enc_w := w'\<rparr>, None))"
  using assms by (simp add: Encode_def)

text \<open>
  Encoding a NaN and then the \<^verbatim>\<open>int\<close> 2 on a new encoder: the first call returns the error
  and writes nothing, the second writes \<^verbatim>\<open>2\<close> and a newline.
\<close>

theorem Encode_value_failure_not_stored_witness:
  "Encode plain bufferWriter [] (NewEncoder []) (Some (float64Type, DFloat64 0x7FF8000000000000))
     = Return ([], NewEncoder [],
         Some (UnsupportedValueError (Val float64Type False (DFloat64 0x7FF8000000000000)) ''NaN''))
   \<and> Encode plain bufferWriter [] (NewEncoder []) (Some (intType, DInt 2))
     = Return ([\<lparr>Buffer = Some (''2'' @ [CHR 0x0A])\<rparr>],
               \<lparr>enc_w = ''2'' @ [CHR 0x0A], enc_err = None\<rparr>, None)"
proof -
  have unset: "enc_err (NewEncoder ([] :: string)) = None"
    by (simp add: NewEncoder_def)
  have new: "newEncodeState [] = (\<lparr>Buffer = None\<rparr>, [])"
    by (simp add: newEncodeState_def)
  have w: "bufferWriter (enc_w (NewEncoder [])) (contents (WriteByte (Buffer_Write \<lparr>Buffer = None\<rparr> ''2'') (CHR 0x0A)))
             = (''2'' @ [CHR 0x0A], 2, None)"
    by (simp add: bufferWriter_def NewEncoder_def buf_defs)
  from Encode_value_failure_not_stored [where P = plain and W = bufferWriter
      and ?e2.0 = "\<lparr>Buffer = None\<rparr>" and pool'' = "[]" and ?v2.0 = "Some (intType, DInt 2)"
      and e2' = "Buffer_Write \<lparr>Buffer = None\<rparr> ''2''" and w' = "''2'' @ [CHR 0x0A]" and n = 2,
      OF unset new marshal_NaN] new marshal_int_two w
  show ?thesis
    by (simp add: putEncodeState_def NewEncoder_def buf_defs)
qed

text \<open>
  C3, as the code has it.  A slice type whose elements are of kind \<^verbatim>\<open>uint8\<close>, and which has
  no method \<^verbatim>\<open>MarshalText\<close> (nor has its pointer type), is encoded by \<^verbatim>\<open>encodeByteSlice\<close>,
  except \<^verbatim>\<open>uuid.UUID\<close>, which is encoded by \<^verbatim>\<open>encodeUuid\<close>.  An array type of such
  elements is not: it is encoded by \<^verbatim>\<open>arrayEncoder\<close>, element by element, like any other
  array ("Byte slices get special treatment; arrays don't", encode.go line 398).
\<close>

theorem byte_slice_encoders:
  assumes "Type_Kind (Type_Elem t) = Uint8"
    and "\<not> Implements P t textMarshalerType"
    and "\<not> Implements P (PtrTo t) textMarshalerType"
  shows "(Type_Kind t = Slice \<longrightarrow> typeEncoder P t = (if t = uuidType then encodeUuid else encodeByteSlice))
     \<and> (Type_Kind t = Array \<longrightarrow> typeEncoder P t = arrayEncoder (typeEncoder P (Type_Elem t)))"
  using assms
  by (simp add: typeEncoder_no_methods newTypeEncoder_Slice newTypeEncoder_Array
      newSliceEncoder.simps newArrayEncoder.simps)

text \<open>At \<^verbatim>\<open>[]byte\<close>, \<^verbatim>\<open>uuid.UUID\<close> and \<^verbatim>\<open>[3]byte\<close>.\<close>

theorem byte_slice_encoders_witness:
  "typeEncoder plain (SliceOf byteType) = encodeByteSlice
   \<and> typeEncoder plain uuidType = encodeUuid
   \<and> typeEncoder plain (ArrayOf 3 byteType) = arrayEncoder (typeEncoder plain byteType)"
proof -
  have k: "Type_Kind (Type_Elem (SliceOf byteType)) = Uint8" "Type_Kind (Type_Elem uuidType) = Uint8"
    "Type_Kind (Type_Elem (ArrayOf 3 byteType)) = Uint8"
    by (simp_all add: byteType_def uuidType_def)
  have u: "\<not> Implements plain uuidType textMarshalerType"
    "\<not> Implements plain (PtrTo uuidType) textMarshalerType"
    by (simp_all add: Implements_def plain_def)
  have n: "SliceOf byteType \<noteq> uuidType"
    by (simp add: uuidType_def)
  from byte_slice_encoders [of "SliceOf byteType" plain, OF k(1)]
    byte_slice_encoders [of uuidType plain, OF k(2) u]
    byte_slice_encoders [of "ArrayOf 3 byteType" plain, OF k(3)] n
  show ?thesis
    by (simp add: uuidType_def)
qed

text \<open>
  C3, as it is stated, fails on a fixed-length shape: \<^verbatim>\<open>[3]byte{65, 66, 67}\<close> is encoded by
  \<^verbatim>\<open>arrayEncoder\<close> as \<^verbatim>\<open>[65 66 67]\<close> (TestSlicesAndArrays expects it), not as a
  \<^verbatim>\<open>#base64\<close> literal.
\<close>

theorem byte_array_is_not_blob:
  "typeEncoder plain (ArrayOf 3 byteType) = arrayEncoder uintEncoder
   \<and> Marshal plain (Some (ArrayOf 3 byteType, DArray [DUint 65, DUint 66, DUint 67]))
       = Return (Some ''[65 66 67]'', None)"
proof -
  have enc: "typeEncoder plain (ArrayOf 3 byteType) = arrayEncoder uintEncoder"
    by (simp add: typeEncoder_no_methods newTypeEncoder_Array newArrayEncoder.simps typeEncoder_byteType)
  have d: "formatBits 65 = ''65''" "formatBits 66 = ''66''" "formatBits 67 = ''67''"
    by (simp_all add: formatBits.simps lowerhex_def)
  show ?thesis
    by (simp add: enc Marshal_Some call.simps arrayEncoder_loop_step arrayEncoder_loop_done
        Value_Len_def Value_Index_def Value_Uint_def run_defs buf_defs AppendUint_def d)
qed

text \<open>
  C4, as the code has it.  For a value of a type that has the method \<^verbatim>\<open>MarshalText\<close>, the
  type being neither an interface type (the dynamic type of the argument of \<^verbatim>\<open>Marshal\<close>
  never is), nor \<^verbatim>\<open>time.Time\<close>, nor a pointer to \<^verbatim>\<open>time.Time\<close>, and a pointer not being nil:
  when the call returns the bytes \<open>b\<close> and no error, \<^verbatim>\<open>Marshal\<close> returns
  \<^verbatim>\<open>strconv.Quote(string(b))\<close>, the bytes between double quotes, with the quotes,
  backslashes and unprintable characters among them escaped.  \<^verbatim>\<open>time.Time\<close> has the method
  too, but \<^verbatim>\<open>newTypeEncoder\<close> chooses \<^verbatim>\<open>timeEncoder\<close> for it, and \<^verbatim>\<open>ptrEncoder\<close> of
  \<^verbatim>\<open>timeEncoder\<close> for a pointer to it, before it asks for the method: a \<^verbatim>\<open>time.Time\<close> and a
  non-nil pointer to one are written as \<^verbatim>\<open>#inst\<close>, a space and the quoted RFC 3339 text of
  the time, whatever their \<^verbatim>\<open>MarshalText\<close> returns.
\<close>

theorem text_marshaler_output_is_quoted:
  "(Implements P t textMarshalerType \<and> MarshalText P t = Some m \<and> m d = (b, None)
      \<and> Type_Kind t \<noteq> Interface \<and> t \<noteq> timeType
      \<and> (Type_Kind t = Ptr \<longrightarrow> Type_Elem t \<noteq> timeType \<and> (\<exists>x. d = DPtr (Some x)))
    \<longrightarrow> Marshal P (Some (t, d)) = Return (Some (Quote (isPrintTable P) b), None))
   \<and> Marshal P (Some (timeType, DTime tm))
        = Return (Some (''#inst '' @ Quote (isPrintTable P) (Format_RFC3339Nano tm)), None)
   \<and> Marshal P (Some (PtrTo timeType, DPtr (Some (DTime tm))))
        = Return (Some (''#inst '' @ Quote (isPrintTable P) (Format_RFC3339Nano tm)), None)"
proof (intro conjI impI)
  assume a: "Implements P t textMarshalerType \<and> MarshalText P t = Some m \<and> m d = (b, None)
      \<and> Type_Kind t \<noteq> Interface \<and> t \<noteq> timeType
      \<and> (Type_Kind t = Ptr \<longrightarrow> Type_Elem t \<noteq> timeType \<and> (\<exists>x. d = DPtr (Some x)))"
  have enc: "typeEncoder P t = textMarshalerEncoder"
    using a by (auto simp: typeEncoder.simps newTypeEncoder.simps)
  have nil: "(if Value_Kind (Val t False d) = Ptr then Value_IsNil (Val t False d) else Inr False) = Inr False"
    using a by (auto simp: Value_Kind_def Value_IsNil_def)
  have m: "Value_MarshalText P (Val t False d) = Inr (b, None)"
    using a by (simp add: Value_MarshalText_def Implements_def)
  show "Marshal P (Some (t, d)) = Return (Some (Quote (isPrintTable P) b), None)"
    using Quote_not_empty [of "isPrintTable P" b]
    by (simp add: Marshal_Some enc call.simps nil m stringBytes_def run_defs buf_defs Let_def)
next
  show "Marshal P (Some (timeType, DTime tm))
        = Return (Some (''#inst '' @ Quote (isPrintTable P) (Format_RFC3339Nano tm)), None)"
    by (simp add: Marshal_Some typeEncoder_timeType call_timeEncoder buf_defs)
next
  have elem: "Value_Elem (Val (PtrTo timeType) False (DPtr (Some (DTime tm)))) = Inr (Val timeType True (DTime tm))"
    by (simp add: Value_Elem_def)
  have nil: "Value_IsNil (Val (PtrTo timeType) False (DPtr (Some (DTime tm)))) = Inr False"
    by (simp add: Value_IsNil_def)
  show "Marshal P (Some (PtrTo timeType, DPtr (Some (DTime tm))))
        = Return (Some (''#inst '' @ Quote (isPrintTable P) (Format_RFC3339Nano tm)), None)"
    by (simp add: Marshal_Some typeEncoder_ptr_timeType call.simps elem nil
        Value_Interface_Time_def encodeState_string_def Let_def run_defs buf_defs)
qed

text \<open>At a \<^verbatim>\<open>rawText\<close> whose text is \<^verbatim>\<open>cool=true\<close>, the text of TestCustomTextMarshal.\<close>

theorem text_marshaler_output_is_quoted_witness:
  "Implements texts rawTextType textMarshalerType
   \<and> Marshal texts (Some (rawTextType, DString ''cool=true''))
     = Return (Some ([CHR 0x22] @ ''cool=true'' @ [CHR 0x22]), None)"
proof -
  have q: "Quote (isPrintTable texts) ''cool=true'' = [CHR 0x22] @ ''cool=true'' @ [CHR 0x22]"
    by (simp add: Quote_def appendQuotedWith_def appendEscapedRune_def IsPrint_def RuneError_def)
  have m: "MarshalText texts rawTextType
             = Some (\<lambda>d. (case d of DString s \<Rightarrow> s | _ \<Rightarrow> [], None))"
    by (simp add: texts_def)
  from text_marshaler_output_is_quoted [of texts rawTextType
      "\<lambda>d. (case d of DString s \<Rightarrow> s | _ \<Rightarrow> [], None)" "DString ''cool=true''" "''cool=true''"]
    Implements_texts m
  show ?thesis
    by (simp add: q rawTextType_def timeType_def)
qed

text \<open>
  C4, as it is stated, fails: the bytes returned are escaped.  From a \<^verbatim>\<open>rawText\<close> that returns
  the three bytes \<^verbatim>\<open>a"b\<close>, \<^verbatim>\<open>Marshal\<close> returns the six bytes \<^verbatim>\<open>"a\"b"\<close>, not the five bytes
  \<^verbatim>\<open>"a"b"\<close>.
\<close>

theorem text_marshaler_output_is_escaped:
  "Marshal texts (Some (rawTextType, DString (''a'' @ [CHR 0x22] @ ''b'')))
     = Return (Some ([CHR 0x22] @ ''a'' @ [CHR 0x5C, CHR 0x22] @ ''b'' @ [CHR 0x22]), None)
   \<and> Marshal texts (Some (rawTextType, DString (''a'' @ [CHR 0x22] @ ''b'')))
     \<noteq> Return (Some ([CHR 0x22] @ (''a'' @ [CHR 0x22] @ ''b'') @ [CHR 0x22]), None)"
proof -
  have enc: "typeEncoder texts rawTextType = textMarshalerEncoder"
    using Implements_texts
    by (simp add: typeEncoder.simps newTypeEncoder.simps rawTextType_def timeType_def)
  have m: "Value_MarshalText texts (Val rawTextType False (DString s)) = Inr (s, None)" for s
    by (simp add: Value_MarshalText_def rawTextType_def texts_def)
  have k: "Value_Kind (Val rawTextType False d) \<noteq> Ptr" for d
    by (simp add: Value_Kind_def rawTextType_def)
  show ?thesis
    using Quote_a_quote_b [of "isPrintTable texts"]
    by (simp add: Marshal_Some enc call.simps k m stringBytes_def run_defs buf_defs Let_def)
qed

text \<open>
  C6.  An empty sequence, map and set encode to \<^verbatim>\<open>[]\<close>, \<^verbatim>\<open>{}\<close> and \<^verbatim>\<open>#{}\<close>, nil or of
  length zero alike.  A sequence is a slice or array type whose encoder is the sequence
  encoder: one that has no method \<^verbatim>\<open>MarshalText\<close> and, for a slice, whose elements are not
  of kind \<^verbatim>\<open>uint8\<close> (those are the byte blobs of C3 and C7, encoded otherwise).
\<close>

theorem empty_containers:
  assumes "\<not> Implements P t textMarshalerType"
  shows "(Type_Kind t = Slice \<and> Type_Kind (Type_Elem t) \<noteq> Uint8 \<longrightarrow>
            Marshal P (Some (t, DSlice None)) = Return (Some ''[]'', None)
          \<and> Marshal P (Some (t, DSlice (Some []))) = Return (Some ''[]'', None))
       \<and> (Type_Kind t = Array \<longrightarrow> Marshal P (Some (t, DArray [])) = Return (Some ''[]'', None))
       \<and> (Type_Kind t = Map \<and> t \<noteq> setType \<longrightarrow>
            Marshal P (Some (t, DMap None)) = Return (Some ''{}'', None)
          \<and> Marshal P (Some (t, DMap (Some []))) = Return (Some ''{}'', None))
       \<and> Marshal P (Some (setType, DMap None)) = Return (Some ''#{}'', None)
       \<and> Marshal P (Some (setType, DMap (Some []))) = Return (Some ''#{}'', None)"
proof -
  have "Type_Kind setType = Map"
    by (simp add: setType_def)
  then have set_enc: "newTypeEncoder P setType False = newMapEncoder P setType"
    by (simp add: newTypeEncoder_Map)
  show ?thesis
    using assms
    by (simp add: Marshal_Some call_unaddressable newTypeEncoder_Slice newTypeEncoder_Array
        newTypeEncoder_Map set_enc newSliceEncoder.simps newArrayEncoder.simps newMapEncoder.simps
        call.simps arrayEncoder_loop_done mapEncoder_loop_empty
        Value_IsNil_def Value_Len_def Value_Type_def run_defs buf_defs)
qed

text \<open>At \<^verbatim>\<open>[]int\<close>, \<^verbatim>\<open>[0]int\<close>, \<^verbatim>\<open>map[int]int\<close> and \<^verbatim>\<open>Set\<close>.\<close>

theorem empty_containers_witness:
  "Marshal plain (Some (SliceOf intType, DSlice None)) = Return (Some ''[]'', None)
   \<and> Marshal plain (Some (SliceOf intType, DSlice (Some []))) = Return (Some ''[]'', None)
   \<and> Marshal plain (Some (ArrayOf 0 intType, DArray [])) = Return (Some ''[]'', None)
   \<and> Marshal plain (Some (MapOf intType intType, DMap None)) = Return (Some ''{}'', None)
   \<and> Marshal plain (Some (MapOf intType intType, DMap (Some []))) = Return (Some ''{}'', None)
   \<and> Marshal plain (Some (setType, DMap None)) = Return (Some ''#{}'', None)
   \<and> Marshal plain (Some (setType, DMap (Some []))) = Return (Some ''#{}'', None)"
  using empty_containers [of plain "SliceOf intType"] empty_containers [of plain "ArrayOf 0 intType"]
    empty_containers [of plain "MapOf intType intType"]
  by (simp add: intType_def setType_def)


text \<open>
  C7. A non-nil \<^verbatim>\<open>[]byte\<close> is rendered as \<^verbatim>\<open>#base64\<close>, a space and the
  double-quoted standard Base64 encoding of its bytes: the text between the quotes is
  \<^const>\<open>StdEncoding_Encode\<close> of the bytes, whichever of the two paths of the encoder
  (the direct one below 1024 bytes, the streaming one above) writes it; it has
  \<open>(n + 2) div 3 * 4\<close> characters for \<open>n\<close> bytes, all of them from the standard alphabet
  or the padding character, so that no line break is inserted. A nil byte slice is
  rendered as \<^verbatim>\<open>nil\<close>, and the sixteen bytes of \<^verbatim>\<open>any + old & data\<close> give
  \<^verbatim>\<open>YW55ICsgb2xkICYgZGF0YQ==\<close> between the quotes.
\<close>

theorem byte_slice_base64:
  "Marshal P (Some (SliceOf byteType, DSlice (Some (map DUint bs))))
     = Return (Some (''#base64 '' @ [CHR 0x22] @ StdEncoding_Encode (map (\<lambda>u. unat u mod 256) bs)
                       @ [CHR 0x22]), None)
   \<and> Marshal P (Some (SliceOf byteType, DSlice None)) = Return (Some ''nil'', None)
   \<and> length (StdEncoding_Encode (map (\<lambda>u. unat u mod 256) bs)) = (length bs + 2) div 3 * 4
   \<and> set (StdEncoding_Encode (map (\<lambda>u. unat u mod 256) bs)) \<subseteq> set encodeStd \<union> {CHR ''=''}
   \<and> Marshal P (Some (SliceOf byteType, DSlice (Some (map (\<lambda>c. DUint (of_char c)) ''any + old & data''))))
     = Return (Some (''#base64 '' @ [CHR 0x22] @ ''YW55ICsgb2xkICYgZGF0YQ=='' @ [CHR 0x22]), None)"
proof -
  have general: "Marshal P (Some (SliceOf byteType, DSlice (Some (map DUint bs))))
     = Return (Some (''#base64 '' @ [CHR 0x22] @ StdEncoding_Encode (map (\<lambda>u. unat u mod 256) bs)
                       @ [CHR 0x22]), None)" for bs
    by (simp add: Marshal_Some typeEncoder_byte_slice call_encodeByteSlice buf_defs)
  have nil: "Marshal P (Some (SliceOf byteType, DSlice None)) = Return (Some ''nil'', None)"
    by (simp add: Marshal_Some typeEncoder_byte_slice call.simps Value_IsNil_def run_defs buf_defs)
  have "Marshal P (Some (SliceOf byteType, DSlice (Some (map DUint (map of_char ''any + old & data'')))))
     = Return (Some (''#base64 '' @ [CHR 0x22] @ ''YW55ICsgb2xkICYgZGF0YQ=='' @ [CHR 0x22]), None)"
    unfolding general by (simp add: encodeStd_def)
  then have test: "Marshal P (Some (SliceOf byteType, DSlice (Some (map (\<lambda>c. DUint (of_char c)) ''any + old & data''))))
     = Return (Some (''#base64 '' @ [CHR 0x22] @ ''YW55ICsgb2xkICYgZGF0YQ=='' @ [CHR 0x22]), None)"
    by simp
  show ?thesis
    using general [of bs] nil test set_StdEncoding_Encode [of "map (\<lambda>u. unat u mod 256) bs"]
    by (simp add: length_StdEncoding_Encode EncodedLen_def)
qed

text \<open>
  C1. A \<^verbatim>\<open>float64\<close> that is a NaN or an infinity (\<^const>\<open>IsNaN\<close>, \<^const>\<open>IsInf\<close>), and a
  \<^verbatim>\<open>float32\<close> whose exponent bits are all ones (the NaNs and the two infinities of that
  width, which the conversion to \<^verbatim>\<open>float64\<close> keeps), is refused: \<^const>\<open>Marshal\<close> returns no
  bytes and an \<^const>\<open>UnsupportedValueError\<close> that carries the value and its text, one of
  \<^verbatim>\<open>NaN\<close>, \<^verbatim>\<open>+Inf\<close> and \<^verbatim>\<open>-Inf\<close>.
\<close>

theorem float_special_values_unsupported:
  "(IsNaN f \<or> IsInf f 0 \<longrightarrow>
      Marshal P (Some (float64Type, DFloat64 f))
        = Return (None, Some (UnsupportedValueError (Val float64Type False (DFloat64 f))
                    (if IsNaN f then ''NaN'' else if IsInf f 1 then ''+Inf'' else ''-Inf''))))
   \<and> (unat x div 2 ^ 23 mod 2 ^ 8 = 255 \<longrightarrow>
      (IsNaN (float64_of_float32 x) \<or> IsInf (float64_of_float32 x) 0)
      \<and> Marshal P (Some (float32Type, DFloat32 x))
        = Return (None, Some (UnsupportedValueError (Val float32Type False (DFloat32 x))
                    (if unat x mod 2 ^ 23 \<noteq> 0 then ''NaN''
                     else if unat x div 2 ^ 31 = 0 then ''+Inf'' else ''-Inf''))))"
proof (intro conjI impI)
  assume special: "IsNaN f \<or> IsInf f 0"
  have "call P float64Encoder \<lparr>Buffer = None\<rparr> (Val float64Type False (DFloat64 f))
          = (\<lparr>Buffer = None\<rparr>, Some (PanicError (UnsupportedValueError (Val float64Type False (DFloat64 f))
               (if IsNaN f then ''NaN'' else if IsInf f 1 then ''+Inf'' else ''-Inf''))))"
    unfolding float64Encoder_def
    by (rule call_floatEncoder_special [OF _ special FormatFloat_specials [OF special]])
      (simp add: Value_Float_def)
  then show "Marshal P (Some (float64Type, DFloat64 f))
        = Return (None, Some (UnsupportedValueError (Val float64Type False (DFloat64 f))
                    (if IsNaN f then ''NaN'' else if IsInf f 1 then ''+Inf'' else ''-Inf'')))"
    by (simp add: Marshal_Some typeEncoder_float64Type)
next
  assume e: "unat x div 2 ^ 23 mod 2 ^ 8 = 255"
  note conv = float64_of_float32_special [OF e]
  show special: "IsNaN (float64_of_float32 x) \<or> IsInf (float64_of_float32 x) 0"
    using conv(1,2) by blast
  have str_eq: "(if IsNaN (float64_of_float32 x) then ''NaN''
               else if IsInf (float64_of_float32 x) 1 then ''+Inf'' else ''-Inf'')
              = (if unat x mod 2 ^ 23 \<noteq> 0 then ''NaN''
                 else if unat x div 2 ^ 31 = 0 then ''+Inf'' else ''-Inf'')"
    using conv(1,3) by auto
  have "call P float32Encoder \<lparr>Buffer = None\<rparr> (Val float32Type False (DFloat32 x))
          = (\<lparr>Buffer = None\<rparr>, Some (PanicError (UnsupportedValueError (Val float32Type False (DFloat32 x))
               (if IsNaN (float64_of_float32 x) then ''NaN''
                else if IsInf (float64_of_float32 x) 1 then ''+Inf'' else ''-Inf''))))"
    unfolding float32Encoder_def
    by (rule call_floatEncoder_special [OF _ special FormatFloat32_specials [OF special]])
      (simp add: Value_Float_def)
  then show "Marshal P (Some (float32Type, DFloat32 x))
        = Return (None, Some (UnsupportedValueError (Val float32Type False (DFloat32 x))
                    (if unat x mod 2 ^ 23 \<noteq> 0 then ''NaN''
                     else if unat x div 2 ^ 31 = 0 then ''+Inf'' else ''-Inf'')))"
    unfolding str_eq by (simp add: Marshal_Some typeEncoder_float32Type)
qed

theorem float_special_values_unsupported_witness:
  "(IsNaN (0x7FF8000000000000 :: float64) \<or> IsInf (0x7FF8000000000000 :: float64) 0)
   \<and> Marshal plain (Some (float64Type, DFloat64 0x7FF8000000000000))
        = Return (None, Some (UnsupportedValueError (Val float64Type False (DFloat64 0x7FF8000000000000)) ''NaN''))
   \<and> unat (0xFF800000 :: float32) div 2 ^ 23 mod 2 ^ 8 = 255
   \<and> Marshal plain (Some (float32Type, DFloat32 0xFF800000))
        = Return (None, Some (UnsupportedValueError (Val float32Type False (DFloat32 0xFF800000)) ''-Inf''))"
  using float_special_values_unsupported [of "0x7FF8000000000000" plain "0xFF800000"]
  by (simp add: IsNaN_def IsInf_def)

end
